theory Spec2Isabelle
  imports Main "HOL-Library.Sublist"
begin

section \<open>Values exchanged with the transport\<close>

text \<open>
  Transport events, tool-call arguments and outbound application messages are untyped
  JavaScript values (\<open>any\<close> in the source). They are modelled as a tree of the JSON
  shapes plus \<open>undefined\<close>, which is what reading a missing property gives. Numbers are
  restricted to integers; an object is an association list in which the first binding
  of a key is the one that is read.
\<close>

datatype json =
    JUndefined
  | JNull
  | JBool bool
  | JNum int
  | JStr string
  | JArr "json list"
  | JObj "(string \<times> json) list"

text \<open>
  Exceptions are values. The payload is the \<open>message\<close> of the thrown object; the text
  that the engine puts into a \<open>TypeError\<close> is engine specific and only names the
  property whose access failed.
\<close>

datatype js_error = Error string | TypeError string | SyntaxError string

fun message :: "js_error \<Rightarrow> string" where
  "message (Error m) = m"
| "message (TypeError m) = m"
| "message (SyntaxError m) = m"

text \<open>The conversion of a thrown object by a template literal: name, colon, message.\<close>

fun error_to_string :: "js_error \<Rightarrow> string" where
  "error_to_string (Error m) = (if m = [] then ''Error'' else ''Error: '' @ m)"
| "error_to_string (TypeError m) = (if m = [] then ''TypeError'' else ''TypeError: '' @ m)"
| "error_to_string (SyntaxError m) = (if m = [] then ''SyntaxError'' else ''SyntaxError: '' @ m)"

text \<open>JavaScript truthiness, as used by every \<open>if (x)\<close>, \<open>x && y\<close> and \<open>!x\<close> below.\<close>

fun truthy :: "json \<Rightarrow> bool" where
  "truthy JUndefined = False"
| "truthy JNull = False"
| "truthy (JBool b) = b"
| "truthy (JNum n) = (n \<noteq> 0)"
| "truthy (JStr s) = (s \<noteq> [])"
| "truthy (JArr xs) = True"
| "truthy (JObj kvs) = True"

text \<open>
  \<open>getp v k\<close> is the property read \<open>v.k\<close> on a value that is neither \<open>null\<close> nor
  \<open>undefined\<close> (the source guards the read by truthiness): a missing key, and any key
  of a primitive or of an array, reads as \<open>undefined\<close>. None of the keys read by the
  source is a built-in property of strings or arrays.
\<close>

fun getp :: "json \<Rightarrow> string \<Rightarrow> json" where
  "getp (JObj kvs) k = (case map_of kvs k of Some v \<Rightarrow> v | None \<Rightarrow> JUndefined)"
| "getp v k = JUndefined"

text \<open>\<open>read_prop v k\<close> is the unguarded read \<open>v.k\<close>, which throws on \<open>null\<close> and \<open>undefined\<close>.\<close>

fun read_prop :: "json \<Rightarrow> string \<Rightarrow> js_error + json" where
  "read_prop JUndefined k = Inl (TypeError (''Cannot read properties of undefined: '' @ k))"
| "read_prop JNull k = Inl (TypeError (''Cannot read properties of null: '' @ k))"
| "read_prop v k = Inr (getp v k)"

section \<open>Strings\<close>

text \<open>
  A string is a list of bytes. On a string of ASCII characters
  \<open>String.prototype.toLowerCase\<close> replaces the letters A to Z by a to z and leaves every
  other character as it is. What it does to a string with a character outside ASCII
  (other alphabets, special casing, locale) is the platform's, and is the parameter
  \<open>lower\<close> of the model. \<open>String.prototype.includes\<close> is the contiguous-sublist test of
  the library.
\<close>

definition ascii :: "string \<Rightarrow> bool" where
  "ascii s = list_all (\<lambda>c. \<not> digit7 c) s"

definition lower_char :: "char \<Rightarrow> char" where
  "lower_char c =
     (case map_of (zip ''ABCDEFGHIJKLMNOPQRSTUVWXYZ'' ''abcdefghijklmnopqrstuvwxyz'') c of
        Some l \<Rightarrow> l
      | None \<Rightarrow> c)"

definition toLowerCase :: "(string \<Rightarrow> string) \<Rightarrow> string \<Rightarrow> string" where
  "toLowerCase lower s = (if ascii s then map lower_char s else lower s)"

definition str_includes :: "string \<Rightarrow> string \<Rightarrow> bool" where
  "str_includes s t = sublist t s"

section \<open>The event normalizer: extractToolCallFromData\<close>

record tool_call =
  function_name :: json
  arguments :: json

text \<open>
  \<open>typeof a === 'string' ? JSON.parse(a) : a\<close>. \<open>JSON.parse\<close> is the platform's parser and
  is a parameter of the model: it returns the parsed value or throws a \<open>SyntaxError\<close>.
\<close>

fun parse_arguments :: "(string \<Rightarrow> js_error + json) \<Rightarrow> json \<Rightarrow> js_error + json" where
  "parse_arguments parse (JStr s) = parse s"
| "parse_arguments parse a = Inr a"

text \<open>
  The function body is six guarded blocks in sequence. Blocks 1, 2, 3 and 6 either
  return a tool call, throw, or fall through to the next block; they are the
  definitions below, with \<open>None\<close> for falling through. Blocks 4 and 5 return whatever the
  recursive call returns, \<open>null\<close> included.
\<close>

text \<open>Block 1: \<open>if (data.function_name && data.arguments)\<close>.\<close>

definition direct_fields :: "json \<Rightarrow> tool_call option" where
  "direct_fields data =
     (if truthy (getp data ''function_name'') \<and> truthy (getp data ''arguments'')
      then Some \<lparr>function_name = getp data ''function_name'',
                 arguments = getp data ''arguments''\<rparr>
      else None)"

text \<open>Block 2: \<open>if (data.properties && data.properties.function_name)\<close>.\<close>

definition nested_properties :: "json \<Rightarrow> tool_call option" where
  "nested_properties data =
     (if truthy (getp data ''properties'')
         \<and> truthy (getp (getp data ''properties'') ''function_name'')
      then Some \<lparr>function_name = getp (getp data ''properties'') ''function_name'',
                 arguments = getp (getp data ''properties'') ''arguments''\<rparr>
      else None)"

text \<open>
  The shared tail of blocks 3 and 6: a function descriptor \<open>f\<close> with \<open>f.name\<close> and
  string- or object-valued \<open>f.arguments\<close>.
\<close>

definition from_descriptor ::
  "(string \<Rightarrow> js_error + json) \<Rightarrow> json \<Rightarrow> js_error + tool_call option" where
  "from_descriptor parse f =
     (case parse_arguments parse (getp f ''arguments'') of
        Inl e \<Rightarrow> Inl e
      | Inr a \<Rightarrow> Inr (Some \<lparr>function_name = getp f ''name'', arguments = a\<rparr>))"

text \<open>
  Block 3: \<open>data.tool_calls\<close> is a non-empty array; only its first element is read, and
  \<open>toolCall.function\<close> is an unguarded read.
\<close>

definition tool_calls_array ::
  "(string \<Rightarrow> js_error + json) \<Rightarrow> json \<Rightarrow> js_error + tool_call option" where
  "tool_calls_array parse data =
     (case getp data ''tool_calls'' of
        JArr (toolCall # rest) \<Rightarrow>
          (case read_prop toolCall ''function'' of
             Inl e \<Rightarrow> Inl e
           | Inr f \<Rightarrow> if truthy f then from_descriptor parse f else Inr None)
      | _ \<Rightarrow> Inr None)"

text \<open>The guard of block 4 (the nested \<open>if (data.properties)\<close> included).\<close>

definition conversation_event :: "json \<Rightarrow> bool" where
  "conversation_event data =
     ((getp data ''event_type'' = JStr ''conversation.toolcall''
       \<or> getp data ''event_type'' = JStr ''conversation.llm.function_call''
       \<or> getp data ''message_type'' = JStr ''conversation'')
      \<and> truthy (getp data ''properties''))"

text \<open>
  The guard of block 5: \<open>data.choices\<close> is a non-empty array whose first element has a
  truthy \<open>message.tool_calls\<close>, which is returned; \<open>choice.message\<close> is an unguarded read.
\<close>

definition choice_tool_calls :: "json \<Rightarrow> js_error + json option" where
  "choice_tool_calls data =
     (case getp data ''choices'' of
        JArr (choice # rest) \<Rightarrow>
          (case read_prop choice ''message'' of
             Inl e \<Rightarrow> Inl e
           | Inr m \<Rightarrow>
               if truthy m \<and> truthy (getp m ''tool_calls'')
               then Inr (Some (getp m ''tool_calls'')) else Inr None)
      | _ \<Rightarrow> Inr None)"

text \<open>Block 6: \<open>if (data.function && data.function.name)\<close>.\<close>

definition function_descriptor ::
  "(string \<Rightarrow> js_error + json) \<Rightarrow> json \<Rightarrow> js_error + tool_call option" where
  "function_descriptor parse data =
     (if truthy (getp data ''function'') \<and> truthy (getp (getp data ''function'') ''name'')
      then from_descriptor parse (getp data ''function'')
      else Inr None)"

lemma size_map_of: "map_of kvs k = Some v \<Longrightarrow> size v + 2 \<le> size (JObj kvs)"
  by (induction kvs) (auto split: if_splits)

lemma size_getp: "getp d k \<noteq> JUndefined \<Longrightarrow> size (getp d k) + 2 \<le> size d"
  by (cases d) (auto split: option.splits dest: size_map_of)

lemma truthy_defined: "truthy v \<Longrightarrow> v \<noteq> JUndefined"
  by auto

lemma size_choice_tool_calls:
  assumes "choice_tool_calls data = Inr (Some tcs)"
  shows "size tcs + 8 \<le> size data"
proof -
  from assms obtain choice rest where c: "getp data ''choices'' = JArr (choice # rest)"
    by (auto simp: choice_tool_calls_def split: json.splits list.splits)
  from assms c obtain m where m: "read_prop choice ''message'' = Inr m"
    and t: "truthy (getp m ''tool_calls'')" and tcs: "tcs = getp m ''tool_calls''"
    by (auto simp: choice_tool_calls_def split: sum.splits if_splits)
  from m have m': "m = getp choice ''message''"
    by (cases choice) auto
  from t have "size tcs + 2 \<le> size m"
    unfolding tcs by (intro size_getp truthy_defined)
  moreover from t have "m \<noteq> JUndefined"
    by (cases m) auto
  then have "size m + 2 \<le> size choice"
    unfolding m' by (rule size_getp)
  moreover have "size choice + 2 \<le> size (getp data ''choices'')"
    unfolding c by simp
  moreover have "size (getp data ''choices'') + 2 \<le> size data"
    by (rule size_getp) (simp add: c)
  ultimately show ?thesis by linarith
qed

function extractToolCallFromData ::
  "(string \<Rightarrow> js_error + json) \<Rightarrow> json \<Rightarrow> js_error + tool_call option" where
  "extractToolCallFromData parse data =
     (if \<not> truthy data then Inr None
      else case direct_fields data of
        Some tc \<Rightarrow> Inr (Some tc)
      | None \<Rightarrow>
     (case nested_properties data of
        Some tc \<Rightarrow> Inr (Some tc)
      | None \<Rightarrow>
     (case tool_calls_array parse data of
        Inl e \<Rightarrow> Inl e
      | Inr (Some tc) \<Rightarrow> Inr (Some tc)
      | Inr None \<Rightarrow>
     (if conversation_event data
      then extractToolCallFromData parse (getp data ''properties'')
      else case choice_tool_calls data of
        Inl e \<Rightarrow> Inl e
      | Inr (Some tcs) \<Rightarrow> extractToolCallFromData parse (JObj [(''tool_calls'', tcs)])
      | Inr None \<Rightarrow> function_descriptor parse data))))"
  by pat_completeness auto
termination
proof (relation "measure (\<lambda>(parse, data). size data)", goal_cases)
  case 1
  show ?case by simp
next
  case (2 parse data)
  then have "getp data ''properties'' \<noteq> JUndefined"
    by (auto simp: conversation_event_def)
  from size_getp [OF this] show ?case by simp
next
  case 3
  then show ?case
    by (auto dest: size_choice_tool_calls)
qed

declare extractToolCallFromData.simps [simp del]

section \<open>Catalog, callbacks and status line\<close>

text \<open>
  Modelled from the spec: the type \<open>Book\<close> (imported from \<open>types/Book\<close>) is not part of
  the sources at hand. Its fields are the ones of the spec's CatalogItem, under the
  names by which the source reads them; only \<open>description\<close> is optional (the source
  reads it with \<open>?.\<close>).
\<close>

record book =
  title :: string
  author :: string
  subject :: string
  difficulty_level :: string
  target_age_min :: int
  target_age_max :: int
  description :: "string option"

text \<open>
  The argument of \<open>onFilterChange\<close>: every field is optional, and the values are the
  tool-call arguments as they came, whatever their type.
\<close>

record filters =
  searchTerm :: "json option"
  selectedSubject :: "json option"
  selectedDifficulty :: "json option"
  ageRange :: "(json \<times> json) option"

definition no_filters :: filters where
  "no_filters =
     \<lparr>searchTerm = None, selectedSubject = None, selectedDifficulty = None, ageRange = None\<rparr>"

text \<open>
  The status line. Each constructor is one message template of the source, its
  arguments are the values interpolated into it:
  \<^item> \<open>ShowingSubject n s\<close>: "Showing n s books from our catalog";
  \<^item> \<open>ShowingDifficulty n d\<close>: "Showing n d books";
  \<^item> \<open>FoundSearch n t\<close>: "Found n "t" books";
  \<^item> \<open>ShowingAges n lo hi\<close>: "Showing n books for ages lo-hi";
  \<^item> \<open>FoundRecommendations n\<close>: "Found n recommendations";
  \<^item> \<open>UnknownAction f\<close>: "Unknown action: f";
  \<^item> \<open>AssistantReady n\<close>: "Library assistant ready! we have n books in our catalog".
\<close>

datatype status =
    ReadyToStart
  | InitializingAssistant
  | CreatingConversation
  | ConversationCreatedJoining
  | EndedTimeLimit
  | FailedToCreateConversation
  | JoiningConversation
  | ConnectedWaitingForAssistant
  | FailedToJoinConversation
  | ExternalBooksMentioned
  | FunctionNamesMentioned
  | ShowingSubject nat json
  | ShowingDifficulty nat json
  | FoundSearch nat json
  | ShowingAges nat json json
  | FoundRecommendations nat
  | UnknownAction json
  | ErrorExecutingAction
  | AssistantReady nat
  | WaitingForAssistantMedia

section \<open>Session state\<close>

text \<open>
  The conversation handle that the provider returns; its fields \<open>status\<close> and
  \<open>persona_id\<close>, which the session logic never reads, are left out.
\<close>

record TavusConversation =
  conversation_id :: string
  conversation_name :: string
  conversation_url :: string
  replica_id :: string
  created_at :: string

datatype track_kind = VideoTrack | AudioTrack

record track =
  kind :: track_kind
  track_id :: string

text \<open>
  The local sink is the \<open>video\<close> element behind \<open>videoRef\<close>; a \<open>MediaStream\<close> is the list
  of its tracks.
\<close>

record video_element =
  srcObject :: "track list option"
  muted :: bool

datatype call_object = DailyCall

datatype timer = WrapUpTimer | FinalWarningTimer | HardTerminationTimer | RestartTimer

text \<open>
  Calls that leave the component, in the order in which they are made: the transport
  (\<open>leave\<close>, \<open>destroy\<close>, \<open>join\<close>, \<open>setLocalVideo\<close>, \<open>sendAppMessage\<close>), the provider
  (\<open>createLibraryConversation\<close>, \<open>endConversation\<close>) and the two callbacks of the
  surrounding page. \<open>ExecuteToolCall\<close> records an invocation of the dispatcher.
\<close>

datatype call =
    CreateLibraryConversation
  | EndConversation string
  | CreateCallObject
  | Join string
  | SetLocalVideo bool
  | Leave
  | Destroy
  | SendAppMessage json string
  | FilterChange filters
  | BookRecommendation "book list"
  | ExecuteToolCall tool_call

text \<open>
  The component's state hooks and refs that the session logic reads or writes, the
  pending timers with the instant at which each is due, and the calls made so far.
  State setters are applied at once.
\<close>

record session =
  conversation :: "TavusConversation option"
  isConnected :: bool
  isConnecting :: bool
  error :: "string option"
  isVolumeOn :: bool
  replicaConnected :: bool
  connectionStatus :: status
  lastToolCall :: string
  toolCallHistory :: "string list"
  personaCreated :: bool
  naturalResponseCount :: nat
  restrictedResponseCount :: nat
  videoRef :: "video_element option"
  callObjectRef :: "call_object option"
  conversationIdRef :: "string option"
  timers :: "(nat \<times> timer) list"
  trace :: "call list"

text \<open>
  An operation that can throw after it has changed the state returns the exception
  together with the state at the throw.
\<close>

type_synonym outcome = "(js_error \<times> session) + session"

fun state_of :: "outcome \<Rightarrow> session" where
  "state_of (Inl (e, st)) = st"
| "state_of (Inr st) = st"

text \<open>The arguments of the calls of one kind in a trace, in order.\<close>

fun filter_changes :: "call list \<Rightarrow> filters list" where
  "filter_changes [] = []"
| "filter_changes (FilterChange f # cs) = f # filter_changes cs"
| "filter_changes (c # cs) = filter_changes cs"

fun recommendations :: "call list \<Rightarrow> book list list" where
  "recommendations [] = []"
| "recommendations (BookRecommendation bs # cs) = bs # recommendations cs"
| "recommendations (c # cs) = recommendations cs"

fun executed :: "call list \<Rightarrow> tool_call list" where
  "executed [] = []"
| "executed (ExecuteToolCall tc # cs) = tc # executed cs"
| "executed (c # cs) = executed cs"

fun ended :: "call list \<Rightarrow> string list" where
  "ended [] = []"
| "ended (EndConversation cid # cs) = cid # ended cs"
| "ended (c # cs) = ended cs"

fun sent :: "call list \<Rightarrow> json list" where
  "sent [] = []"
| "sent (SendAppMessage m target # cs) = m # sent cs"
| "sent (c # cs) = sent cs"

section \<open>The dispatcher: executeToolCall\<close>

text \<open>
  \<open>x.toLowerCase()\<close> and \<open>x.includes(t)\<close> on an untyped receiver. Only a string has
  \<open>toLowerCase\<close>; \<open>includes\<close> is the substring test on a string and the membership test
  on an array, and is missing on every other value.
\<close>

fun js_toLowerCase :: "(string \<Rightarrow> string) \<Rightarrow> json \<Rightarrow> js_error + string" where
  "js_toLowerCase lower (JStr s) = Inr (toLowerCase lower s)"
| "js_toLowerCase lower JUndefined =
     Inl (TypeError ''Cannot read properties of undefined: toLowerCase'')"
| "js_toLowerCase lower JNull = Inl (TypeError ''Cannot read properties of null: toLowerCase'')"
| "js_toLowerCase lower v = Inl (TypeError ''toLowerCase is not a function'')"

fun js_includes :: "json \<Rightarrow> string \<Rightarrow> js_error + bool" where
  "js_includes (JStr s) t = Inr (str_includes s t)"
| "js_includes (JArr xs) t = Inr (JStr t \<in> set xs)"
| "js_includes JUndefined t = Inl (TypeError ''Cannot read properties of undefined: includes'')"
| "js_includes JNull t = Inl (TypeError ''Cannot read properties of null: includes'')"
| "js_includes v t = Inl (TypeError ''includes is not a function'')"

text \<open>
  The comparisons \<open>a <= v\<close> and \<open>a >= v\<close> of a number with an untyped value convert the
  value to a number first; \<open>NaN\<close> (here \<open>None\<close>) compares false. The conversion of
  strings, arrays and objects is the platform's and is the parameter \<open>coerce\<close>.
\<close>

fun ToNumber :: "(json \<Rightarrow> int option) \<Rightarrow> json \<Rightarrow> int option" where
  "ToNumber coerce (JNum n) = Some n"
| "ToNumber coerce JUndefined = None"
| "ToNumber coerce JNull = Some 0"
| "ToNumber coerce (JBool b) = Some (if b then 1 else 0)"
| "ToNumber coerce v = coerce v"

definition js_le :: "(json \<Rightarrow> int option) \<Rightarrow> int \<Rightarrow> json \<Rightarrow> bool" where
  "js_le coerce a v = (case ToNumber coerce v of None \<Rightarrow> False | Some b \<Rightarrow> a \<le> b)"

definition js_ge :: "(json \<Rightarrow> int option) \<Rightarrow> int \<Rightarrow> json \<Rightarrow> bool" where
  "js_ge coerce a v = (case ToNumber coerce v of None \<Rightarrow> False | Some b \<Rightarrow> a \<ge> b)"

text \<open>
  The predicate of the filter in \<open>getRecommendedBooks\<close>; \<open>lowerPrefs\<close> is already in
  lower case. A missing description makes its disjunct \<open>undefined\<close>, which is falsy.
\<close>

definition recommended :: "(string \<Rightarrow> string) \<Rightarrow> string \<Rightarrow> book \<Rightarrow> bool" where
  "recommended lower lowerPrefs b =
     (str_includes (toLowerCase lower (title b)) lowerPrefs
      \<or> (case description b of
            None \<Rightarrow> False
          | Some d \<Rightarrow> str_includes (toLowerCase lower d) lowerPrefs)
      \<or> str_includes (toLowerCase lower (subject b)) lowerPrefs
      \<or> str_includes (toLowerCase lower (author b)) lowerPrefs)"

definition getRecommendedBooks ::
  "(string \<Rightarrow> string) \<Rightarrow> book list \<Rightarrow> json \<Rightarrow> js_error + book list" where
  "getRecommendedBooks lower books preferences =
     (case js_toLowerCase lower preferences of
        Inl e \<Rightarrow> Inl e
      | Inr lowerPrefs \<Rightarrow> Inr (take 6 (filter (recommended lower lowerPrefs) books)))"

text \<open>
  The predicate of the filter in the \<open>search_books\<close> case; \<open>lowerTerm\<close> is
  \<open>args.searchTerm.toLowerCase()\<close>.
\<close>

definition search_hit :: "(string \<Rightarrow> string) \<Rightarrow> string \<Rightarrow> book \<Rightarrow> bool" where
  "search_hit lower lowerTerm b =
     (str_includes (toLowerCase lower (title b)) lowerTerm
      \<or> (case description b of
            None \<Rightarrow> False
          | Some d \<Rightarrow> str_includes (toLowerCase lower d) lowerTerm)
      \<or> str_includes (toLowerCase lower (author b)) lowerTerm)"

text \<open>
  The body of the \<open>try\<close> in \<open>executeToolCall\<close>: the \<open>switch\<close> on the function name. Every
  read of an argument is \<open>args.k\<close>, which throws when \<open>args\<close> is \<open>null\<close> or \<open>undefined\<close>;
  in each case the first such read comes before the callback. In the \<open>search_books\<close>
  case \<open>args.searchTerm.toLowerCase()\<close> is evaluated inside the filter, that is, once
  there is a book to test.
\<close>

definition dispatch ::
  "(string \<Rightarrow> string) \<Rightarrow> (json \<Rightarrow> int option) \<Rightarrow> book list \<Rightarrow> json \<Rightarrow> json \<Rightarrow> session
     \<Rightarrow> js_error + session" where
  "dispatch lower coerce books fname args st =
     (if fname = JStr ''filter_books_by_subject'' then
        (case read_prop args ''subject'' of
           Inl e \<Rightarrow> Inl e
         | Inr s \<Rightarrow>
             let subjectBooks = filter (\<lambda>b. s = JStr ''ALL'' \<or> JStr (subject b) = s) books
             in Inr (st\<lparr>trace := trace st @ [FilterChange (no_filters\<lparr>selectedSubject := Some s\<rparr>)],
                        connectionStatus := ShowingSubject (length subjectBooks) s\<rparr>))
      else if fname = JStr ''filter_books_by_difficulty'' then
        (case read_prop args ''difficulty'' of
           Inl e \<Rightarrow> Inl e
         | Inr d \<Rightarrow>
             let difficultyBooks =
                   filter (\<lambda>b. d = JStr ''ALL'' \<or> JStr (difficulty_level b) = d) books
             in Inr (st\<lparr>trace := trace st @ [FilterChange (no_filters\<lparr>selectedDifficulty := Some d\<rparr>)],
                        connectionStatus := ShowingDifficulty (length difficultyBooks) d\<rparr>))
      else if fname = JStr ''search_books'' then
        (case read_prop args ''searchTerm'' of
           Inl e \<Rightarrow> Inl e
         | Inr t \<Rightarrow>
             (case (if books = [] then Inr []
                    else case js_toLowerCase lower t of
                           Inl e \<Rightarrow> Inl e
                         | Inr lowerTerm \<Rightarrow> Inr (filter (search_hit lower lowerTerm) books)) of
                Inl e \<Rightarrow> Inl e
              | Inr searchResults \<Rightarrow>
                  Inr (st\<lparr>trace := trace st @ [FilterChange (no_filters\<lparr>searchTerm := Some t\<rparr>)],
                          connectionStatus := FoundSearch (length searchResults) t\<rparr>)))
      else if fname = JStr ''filter_books_by_age'' then
        (case read_prop args ''minAge'' of
           Inl e \<Rightarrow> Inl e
         | Inr minAge \<Rightarrow>
             let maxAge = getp args ''maxAge'';
                 ageBooks = filter (\<lambda>b. js_le coerce (target_age_min b) maxAge
                                        \<and> js_ge coerce (target_age_max b) minAge) books
             in Inr (st\<lparr>trace := trace st @ [FilterChange (no_filters\<lparr>ageRange := Some (minAge, maxAge)\<rparr>)],
                        connectionStatus := ShowingAges (length ageBooks) minAge maxAge\<rparr>))
      else if fname = JStr ''recommend_books'' then
        (case read_prop args ''preferences'' of
           Inl e \<Rightarrow> Inl e
         | Inr preferences \<Rightarrow>
             (case getRecommendedBooks lower books preferences of
                Inl e \<Rightarrow> Inl e
              | Inr recommendedBooks \<Rightarrow>
                  Inr (st\<lparr>trace := trace st @ [BookRecommendation recommendedBooks],
                          connectionStatus := FoundRecommendations (length recommendedBooks)\<rparr>)))
      else Inr (st\<lparr>connectionStatus := UnknownAction fname\<rparr>))"

text \<open>
  \<open>executeToolCall\<close>: the rendered call goes to the last-call slot and to the history,
  which keeps the last four entries and the new one; then the \<open>switch\<close> runs, and an
  exception from it is caught and replaced by the error status. \<open>render\<close> stands for
  the template literal around \<open>JSON.stringify\<close>, which is the platform's.
\<close>

definition executeToolCall ::
  "(string \<Rightarrow> string) \<Rightarrow> (json \<Rightarrow> json \<Rightarrow> string) \<Rightarrow> (json \<Rightarrow> int option) \<Rightarrow> book list
     \<Rightarrow> tool_call \<Rightarrow> session \<Rightarrow> session" where
  "executeToolCall lower render coerce books toolCallData st =
     (let fname = function_name toolCallData;
          args = arguments toolCallData;
          toolCallString = render fname args;
          prev = toolCallHistory st;
          st1 = st\<lparr>lastToolCall := toolCallString,
                   toolCallHistory := drop (length prev - 4) prev @ [toolCallString],
                   trace := trace st @ [ExecuteToolCall toolCallData]\<rparr>
      in case dispatch lower coerce books fname args st1 of
           Inl e \<Rightarrow> st1\<lparr>connectionStatus := ErrorExecutingAction\<rparr>
         | Inr st2 \<Rightarrow> st2)"

section \<open>The event handler: handleTavusEvent\<close>

text \<open>
  \<open>tryManualToolCall\<close>: the keyword chain over the lower-cased utterance. The only
  exception is the one of \<open>userSpeech.toLowerCase()\<close>, before anything is dispatched.
\<close>

definition tryManualToolCall ::
  "(string \<Rightarrow> string) \<Rightarrow> (json \<Rightarrow> json \<Rightarrow> string) \<Rightarrow> (json \<Rightarrow> int option) \<Rightarrow> book list
     \<Rightarrow> json \<Rightarrow> session \<Rightarrow> js_error + session" where
  "tryManualToolCall lower render coerce books userSpeech st =
     (case js_toLowerCase lower userSpeech of
        Inl e \<Rightarrow> Inl e
      | Inr speech \<Rightarrow>
          if str_includes speech ''story'' \<or> str_includes speech ''stories'' then
            Inr (executeToolCall lower render coerce books
                   \<lparr>function_name = JStr ''filter_books_by_subject'',
                    arguments = JObj [(''subject'', JStr ''STORY'')]\<rparr> st)
          else if str_includes speech ''science'' then
            Inr (executeToolCall lower render coerce books
                   \<lparr>function_name = JStr ''filter_books_by_subject'',
                    arguments = JObj [(''subject'', JStr ''SCIENCE'')]\<rparr> st)
          else if str_includes speech ''math'' then
            Inr (executeToolCall lower render coerce books
                   \<lparr>function_name = JStr ''filter_books_by_subject'',
                    arguments = JObj [(''subject'', JStr ''MATHS'')]\<rparr> st)
          else if str_includes speech ''animal'' \<or> str_includes speech ''rabbit'' then
            Inr (executeToolCall lower render coerce books
                   \<lparr>function_name = JStr ''search_books'',
                    arguments = JObj [(''searchTerm'', JStr ''animals'')]\<rparr> st)
          else if str_includes speech ''easy'' \<or> str_includes speech ''beginner'' then
            Inr (executeToolCall lower render coerce books
                   \<lparr>function_name = JStr ''filter_books_by_difficulty'',
                    arguments = JObj [(''difficulty'', JStr ''beginner'')]\<rparr> st)
          else Inr st)"

text \<open>
  The bookkeeping on replica utterances at the head of the handler, outside its \<open>try\<close>.
  \<open>data\<close> is \<open>event.data\<close>. All the \<open>includes\<close> calls have the same receiver, so they
  throw together or not at all.
\<close>

definition is_utterance_of :: "string \<Rightarrow> json \<Rightarrow> bool" where
  "is_utterance_of role data =
     (truthy data
      \<and> getp data ''event_type'' = JStr ''conversation.utterance''
      \<and> truthy (getp data ''properties'')
      \<and> getp (getp data ''properties'') ''role'' = JStr role)"

definition track_replica_response :: "json \<Rightarrow> session \<Rightarrow> js_error + session" where
  "track_replica_response data st =
     (if is_utterance_of ''replica'' data then
        (let replicaResponse = getp (getp data ''properties'') ''speech'' in
         case js_includes replicaResponse ''Peter Rabbit'' of
           Inl e \<Rightarrow> Inl e
         | Inr _ \<Rightarrow>
             let has = (\<lambda>t. js_includes replicaResponse t = Inr True);
                 mentionsExternalBooks =
                   (has ''Peter Rabbit'' \<or> has ''Runaway Bunny'' \<or> has ''Tale of''
                    \<or> has ''classic story'' \<or> has ''famous book'');
                 isNatural =
                   (\<not> has ''filter_books_by_'' \<and> \<not> has ''search_books''
                    \<and> \<not> has ''recommend_books'' \<and> \<not> has ''{'' \<and> \<not> has ''}'')
             in if isNatural \<and> \<not> mentionsExternalBooks then
                  Inr (st\<lparr>naturalResponseCount := naturalResponseCount st + 1,
                          restrictedResponseCount := restrictedResponseCount st + 1\<rparr>)
                else if mentionsExternalBooks then
                  Inr (st\<lparr>connectionStatus := ExternalBooksMentioned\<rparr>)
                else Inr (st\<lparr>connectionStatus := FunctionNamesMentioned\<rparr>))
      else Inr st)"

text \<open>\<open>if (!toolCallData) toolCallData = ...\<close>: the next attempt runs only after a \<open>null\<close>.\<close>

definition otherwise ::
  "js_error + 'a option \<Rightarrow> js_error + 'a option \<Rightarrow> js_error + 'a option" where
  "otherwise r alt = (case r of Inr None \<Rightarrow> alt | _ \<Rightarrow> r)"

text \<open>
  Method 5 of the handler: \<open>event.data.event_type\<close> is truthy and its \<open>includes\<close> is
  called; a truthy value that is neither a string nor an array has none.
\<close>

definition tool_event_type :: "json \<Rightarrow> js_error + bool" where
  "tool_event_type event_type =
     (case js_includes event_type ''tool'' of
        Inl e \<Rightarrow> Inl e
      | Inr a \<Rightarrow>
          (case js_includes event_type ''function'' of
             Inl e \<Rightarrow> Inl e
           | Inr b \<Rightarrow> Inr (a \<or> b \<or> event_type = JStr ''conversation.llm.function_call'')))"

text \<open>
  The five extraction attempts at the head of the \<open>try\<close>, on an event that is neither
  \<open>null\<close> nor \<open>undefined\<close>: \<open>event.data\<close>, the event itself, \<open>event.payload\<close>,
  \<open>event.message\<close>, and \<open>event.data\<close> again when its event type names a tool call.
\<close>

definition toolCallData_of ::
  "(string \<Rightarrow> js_error + json) \<Rightarrow> json \<Rightarrow> js_error + tool_call option" where
  "toolCallData_of parse event =
     (let data = getp event ''data'' in
      otherwise
        (otherwise
          (otherwise
            (otherwise
              (if truthy data then extractToolCallFromData parse data else Inr None)
              (extractToolCallFromData parse event))
            (if truthy (getp event ''payload'')
             then extractToolCallFromData parse (getp event ''payload'') else Inr None))
          (if truthy (getp event ''message'')
           then extractToolCallFromData parse (getp event ''message'') else Inr None))
        (if truthy data \<and> truthy (getp data ''event_type'') then
           (case tool_event_type (getp data ''event_type'') of
              Inl e \<Rightarrow> Inl e
            | Inr True \<Rightarrow> extractToolCallFromData parse data
            | Inr False \<Rightarrow> Inr None)
         else Inr None))"

text \<open>
  \<open>handleTavusEvent\<close>. The read \<open>event.data\<close> and the bookkeeping on replica utterances
  are outside the \<open>try\<close>: their exceptions leave the handler, with the state as it was.
  Everything thrown inside the \<open>try\<close> is caught and logged.
\<close>

definition handleTavusEvent ::
  "(string \<Rightarrow> js_error + json) \<Rightarrow> (string \<Rightarrow> string) \<Rightarrow> (json \<Rightarrow> json \<Rightarrow> string)
     \<Rightarrow> (json \<Rightarrow> int option) \<Rightarrow> book list \<Rightarrow> json \<Rightarrow> session \<Rightarrow> outcome" where
  "handleTavusEvent parse lower render coerce books event st =
     (case read_prop event ''data'' of
        Inl e \<Rightarrow> Inl (e, st)
      | Inr data \<Rightarrow>
          (case track_replica_response data st of
             Inl e \<Rightarrow> Inl (e, st)
           | Inr st1 \<Rightarrow>
               (case toolCallData_of parse event of
                  Inl e \<Rightarrow> Inr st1
                | Inr (Some toolCallData) \<Rightarrow>
                    Inr (executeToolCall lower render coerce books toolCallData st1)
                | Inr None \<Rightarrow>
                    if is_utterance_of ''user'' data then
                      (case tryManualToolCall lower render coerce books
                              (getp (getp data ''properties'') ''speech'') st1 of
                         Inl e \<Rightarrow> Inr st1
                       | Inr st2 \<Rightarrow> Inr st2)
                    else Inr st1)))"

section \<open>The provider: TavusService\<close>

text \<open>
  What the environment answers during one operation: the configuration read from the
  build environment, the outcome of the two HTTP requests (\<open>Inl\<close> when \<open>fetch\<close> itself
  rejects), whether the transport library has been loaded, and the outcome of the
  awaited transport calls (\<open>Some e\<close> when the promise rejects with \<open>e\<close>).
\<close>

record http_response =
  ok :: bool
  statusText :: string
  errorMessage :: string

record env =
  apiKey :: string
  replicaId :: string
  personaId :: string
  createResponse :: "js_error + http_response \<times> TavusConversation"
  endResponse :: "js_error + http_response"
  dailyLoaded :: bool
  joinResult :: "js_error option"
  setLocalVideoResult :: "js_error option"
  leaveResult :: "js_error option"

definition isConfigured :: "env \<Rightarrow> bool" where
  "isConfigured e = (apiKey e \<noteq> [] \<and> replicaId e \<noteq> [])"

text \<open>\<open>Tavus API error: ${errorData.message || response.statusText}\<close>.\<close>

definition api_error :: "http_response \<Rightarrow> js_error" where
  "api_error r =
     Error (''Tavus API error: '' @ (if errorMessage r \<noteq> [] then errorMessage r else statusText r))"

definition createConversation :: "env \<Rightarrow> js_error + TavusConversation" where
  "createConversation e =
     (if apiKey e = [] then Inl (Error ''Tavus API key not configured'')
      else case createResponse e of
             Inl err \<Rightarrow> Inl err
           | Inr (r, data) \<Rightarrow> if \<not> ok r then Inl (api_error r) else Inr data)"

text \<open>
  \<open>createLibraryConversation\<close> builds the request from the catalog and calls
  \<open>createConversation\<close>; the request reaches the model only as the call itself.
\<close>

definition createLibraryConversation :: "env \<Rightarrow> book list \<Rightarrow> js_error + TavusConversation" where
  "createLibraryConversation e availableBooks = createConversation e"

definition endConversation :: "env \<Rightarrow> string \<Rightarrow> js_error + unit" where
  "endConversation e conversationId =
     (if apiKey e = [] then Inl (Error ''Tavus API key not configured'')
      else case endResponse e of
             Inl err \<Rightarrow> Inl err
           | Inr r \<Rightarrow> if \<not> ok r then Inl (api_error r) else Inr ())"

section \<open>The session controller\<close>

text \<open>
  The asynchronous operations are modelled as running to completion: nothing else
  happens between their awaits. Events that the transport raises on its own
  (\<open>joined-meeting\<close>, \<open>left-meeting\<close>, \<open>error\<close>, \<open>participant-left\<close>) are not part of the
  operations.
\<close>

text \<open>A ref holding a conversation id is truthy when the id is a non-empty string.\<close>

definition held_id :: "session \<Rightarrow> string option" where
  "held_id st =
     (case conversationIdRef st of
        None \<Rightarrow> None
      | Some cid \<Rightarrow> if cid = [] then None else Some cid)"

text \<open>
  \<open>cleanupConversation\<close>, the stop operation. The whole body is one \<open>try\<close>: when
  \<open>leave\<close> or \<open>endConversation\<close> throws, the rest is skipped and the exception is logged.
\<close>

definition cleanupConversation :: "env \<Rightarrow> session \<Rightarrow> session" where
  "cleanupConversation e st =
     (case (case callObjectRef st of
              None \<Rightarrow> Inr st
            | Some c \<Rightarrow>
                (case leaveResult e of
                   Some err \<Rightarrow> Inl (st\<lparr>trace := trace st @ [Leave]\<rparr>)
                 | None \<Rightarrow> Inr (st\<lparr>callObjectRef := None,
                                    trace := trace st @ [Leave, Destroy]\<rparr>))) of
        Inl st' \<Rightarrow> st'
      | Inr st1 \<Rightarrow>
          (case (case held_id st1 of
                   None \<Rightarrow> Inr st1
                 | Some cid \<Rightarrow>
                     (case endConversation e cid of
                        Inl err \<Rightarrow> Inl (st1\<lparr>trace := trace st1 @ [EndConversation cid]\<rparr>)
                      | Inr u \<Rightarrow> Inr (st1\<lparr>trace := trace st1 @ [EndConversation cid]\<rparr>))) of
             Inl st' \<Rightarrow> st'
           | Inr st2 \<Rightarrow>
               st2\<lparr>conversation := None,
                   isConnected := False,
                   replicaConnected := False,
                   connectionStatus := ReadyToStart,
                   conversationIdRef := None,
                   videoRef := map_option (\<lambda>v. v\<lparr>srcObject := None\<rparr>) (videoRef st2)\<rparr>))"

text \<open>
  \<open>joinConversation\<close>. The missing library is reported by an exception before the
  \<open>try\<close>; a rejected \<open>join\<close> or \<open>setLocalVideo\<close> is caught, recorded and thrown again.
\<close>

definition join_failed :: "js_error \<Rightarrow> session \<Rightarrow> session" where
  "join_failed err st =
     st\<lparr>error := Some (''Failed to join: '' @ error_to_string err),
        connectionStatus := FailedToJoinConversation\<rparr>"

definition joinConversation :: "env \<Rightarrow> string \<Rightarrow> session \<Rightarrow> outcome" where
  "joinConversation e conversationUrl st =
     (if \<not> dailyLoaded e then Inl (Error ''Daily.co library not loaded'', st)
      else
        let st1 = st\<lparr>connectionStatus := JoiningConversation,
                     callObjectRef := Some DailyCall,
                     trace := trace st @ [CreateCallObject, Join conversationUrl]\<rparr>
        in case joinResult e of
             Some err \<Rightarrow> Inl (err, join_failed err st1)
           | None \<Rightarrow>
               (let st2 = st1\<lparr>trace := trace st1 @ [SetLocalVideo False]\<rparr>
                in (case setLocalVideoResult e of
                      Some err \<Rightarrow> Inl (err, join_failed err st2)
                    | None \<Rightarrow> Inr (st2\<lparr>isConnected := True,
                                       connectionStatus := ConnectedWaitingForAssistant\<rparr>))))"

text \<open>
  \<open>setTimeout(callback, delay)\<close> at the instant \<open>now\<close>; a call without a delay
  argument is a call with delay 0.
\<close>

definition setTimeout :: "timer \<Rightarrow> nat option \<Rightarrow> nat \<Rightarrow> session \<Rightarrow> session" where
  "setTimeout callback delay now st =
     st\<lparr>timers := timers st @ [(now + (case delay of None \<Rightarrow> 0 | Some d \<Rightarrow> d), callback)]\<rparr>"

definition CONVERSATION_DURATION :: nat where
  "CONVERSATION_DURATION = 60000"

definition WRAP_UP_TIME :: nat where
  "WRAP_UP_TIME = 45000"

definition FINAL_WARNING_TIME :: nat where
  "FINAL_WARNING_TIME = 55000"

text \<open>
  \<open>initializeAIAssistant\<close>, the start operation; \<open>now\<close> is the instant at which
  \<open>joinConversation\<close> has completed and the three timers are set. The second
  \<open>setTimeout\<close> is called with the callback alone: its delay argument is commented out
  in the source.
\<close>

definition initializeAIAssistant :: "env \<Rightarrow> book list \<Rightarrow> nat \<Rightarrow> session \<Rightarrow> session" where
  "initializeAIAssistant e books now st =
     (if \<not> isConfigured e then
        st\<lparr>error := Some ''Tavus not configured. Please check your environment variables.''\<rparr>
      else
        let st1 = st\<lparr>isConnecting := True, error := None,
                     connectionStatus := InitializingAssistant\<rparr>;
            attempt =
              (if personaId e = [] then
                 Inl (Error ''No persona ID configured. Please set either VITE_TAVUS_LIBRARY_PERSONA_ID or VITE_TAVUS_PERSONA_ID in your .env'', st1)
               else
                 let st2 = st1\<lparr>connectionStatus := CreatingConversation,
                              trace := trace st1 @ [CreateLibraryConversation]\<rparr>
                 in case createLibraryConversation e books of
                      Inl err \<Rightarrow> Inl (err, st2)
                    | Inr newConversation \<Rightarrow>
                        (let st3 = st2\<lparr>conversation := Some newConversation,
                                      conversationIdRef := Some (conversation_id newConversation),
                                      connectionStatus := ConversationCreatedJoining\<rparr>
                         in (case joinConversation e (conversation_url newConversation) st3 of
                               Inl (err, st') \<Rightarrow> Inl (err, st')
                             | Inr st4 \<Rightarrow>
                                 Inr (setTimeout HardTerminationTimer (Some CONVERSATION_DURATION) now
                                       (setTimeout FinalWarningTimer None now
                                         (setTimeout WrapUpTimer (Some WRAP_UP_TIME) now st4))))));
            st5 = (case attempt of
                     Inl (err, st') \<Rightarrow>
                       st'\<lparr>error := Some (if message err \<noteq> [] then message err
                                           else ''Failed to create conversation''),
                          connectionStatus := FailedToCreateConversation\<rparr>
                   | Inr st' \<Rightarrow> st')
        in st5\<lparr>isConnecting := False\<rparr>)"

text \<open>The two escalation messages, as the objects handed to \<open>sendAppMessage\<close>.\<close>

definition respond_message :: "string \<Rightarrow> string \<Rightarrow> json" where
  "respond_message cid text =
     JObj [(''message_type'', JStr ''conversation''),
           (''event_type'', JStr ''conversation.respond''),
           (''conversation_id'', JStr cid),
           (''properties'', JObj [(''text'', JStr text)])]"

definition wrapUpInstruction :: "string \<Rightarrow> json" where
  "wrapUpInstruction cid =
     respond_message cid ''We have about 15 seconds left. Please start wrapping up your response.''"

definition finalWarning :: "string \<Rightarrow> json" where
  "finalWarning cid =
     respond_message cid
       ''URGENT: You have 5 seconds left. Please end your response immediately with a polite goodbye.''"

text \<open>
  The callbacks of the timers. Each reads the refs when it runs. The two warnings are
  sent only while both refs are set; an exception of \<open>sendAppMessage\<close> is caught and
  logged. The termination callback starts \<open>cleanupConversation\<close> without awaiting it and
  sets the status; the resets of the cleanup come after an await and so after that.
\<close>

definition send_escalation :: "(string \<Rightarrow> json) \<Rightarrow> session \<Rightarrow> session" where
  "send_escalation msg st =
     (case (callObjectRef st, held_id st) of
        (Some c, Some cid) \<Rightarrow> st\<lparr>trace := trace st @ [SendAppMessage (msg cid) ''*'']\<rparr>
      | _ \<Rightarrow> st)"

definition hard_termination :: "env \<Rightarrow> session \<Rightarrow> session" where
  "hard_termination e st =
     (case held_id st of
        None \<Rightarrow> st
      | Some cid \<Rightarrow> cleanupConversation e (st\<lparr>connectionStatus := EndedTimeLimit\<rparr>))"

fun run_timer :: "env \<Rightarrow> book list \<Rightarrow> nat \<Rightarrow> timer \<Rightarrow> session \<Rightarrow> session" where
  "run_timer e books now WrapUpTimer st = send_escalation wrapUpInstruction st"
| "run_timer e books now FinalWarningTimer st = send_escalation finalWarning st"
| "run_timer e books now HardTerminationTimer st = hard_termination e st"
| "run_timer e books now RestartTimer st = initializeAIAssistant e books now st"

text \<open>A pending timer fires at its due instant: it leaves the list and its callback runs.\<close>

definition fire :: "env \<Rightarrow> book list \<Rightarrow> nat \<times> timer \<Rightarrow> session \<Rightarrow> session" where
  "fire e books due st =
     run_timer e books (fst due) (snd due) (st\<lparr>timers := remove1 due (timers st)\<rparr>)"

text \<open>\<open>restartConversation\<close>: stop, reset the counters, start again one second later.\<close>

definition restartConversation :: "env \<Rightarrow> nat \<Rightarrow> session \<Rightarrow> session" where
  "restartConversation e now st =
     setTimeout RestartTimer (Some 1000) now
       ((cleanupConversation e st)\<lparr>personaCreated := False,
                                   naturalResponseCount := 0,
                                   restrictedResponseCount := 0\<rparr>)"

section \<open>Binding remote media: updateReplicaVideo\<close>

text \<open>
  What \<open>participants()\<close> of the transport returns, in the order in which
  \<open>Object.entries\<close> lists it: per participant the two entries of \<open>tracks\<close>, each with
  its state and, when there is one, the track to play.
\<close>

record track_info =
  state :: string
  persistentTrack :: "track option"

record participant =
  video :: "track_info option"
  audio :: "track_info option"

definition playable :: "track_info option \<Rightarrow> bool" where
  "playable t = (case t of None \<Rightarrow> False | Some i \<Rightarrow> state i = ''playable'')"

text \<open>The track that a playable entry offers, if any.\<close>

definition offered :: "track_info option \<Rightarrow> track option" where
  "offered t = (case t of None \<Rightarrow> None | Some i \<Rightarrow> persistentTrack i)"

text \<open>
  The listeners of the transport are set up once, in \<open>joinConversation\<close>, and call the
  functions of that render: the \<open>isVolumeOn\<close> they read is the value of the state hook in
  the render that started the session, not the current one. It is the parameter
  \<open>volumeOn\<close>; \<open>books\<close> is captured in the same way.
\<close>

definition displayReplicaVideo :: "bool \<Rightarrow> track \<Rightarrow> session \<Rightarrow> session" where
  "displayReplicaVideo volumeOn videoTrack st =
     (case videoRef st of
        None \<Rightarrow> st
      | Some v \<Rightarrow> st\<lparr>videoRef := Some (v\<lparr>srcObject := Some [videoTrack],
                                          muted := \<not> volumeOn\<rparr>)\<rparr>)"

definition handleReplicaAudio :: "bool \<Rightarrow> track \<Rightarrow> session \<Rightarrow> session" where
  "handleReplicaAudio volumeOn audioTrack st =
     (case videoRef st of
        None \<Rightarrow> st
      | Some v \<Rightarrow>
          (case srcObject v of
             None \<Rightarrow> st
           | Some currentStream \<Rightarrow>
               st\<lparr>videoRef :=
                    Some (v\<lparr>srcObject :=
                              Some (filter (\<lambda>t. kind t = VideoTrack) currentStream @ [audioTrack]),
                            muted := \<not> volumeOn\<rparr>)\<rparr>))"

text \<open>
  The body of the \<open>forEach\<close> for one entry; the flag is \<open>hasWorkingAudioVideo\<close>. The
  readiness signal needs both tracks; after it, each track is handled on its own.
\<close>

definition bind_participant ::
  "bool \<Rightarrow> book list \<Rightarrow> string \<times> participant \<Rightarrow> bool \<times> session \<Rightarrow> bool \<times> session" where
  "bind_participant volumeOn books entry acc =
     (if fst entry = ''local'' then acc
      else
        let p = snd entry;
            videoPlayable = playable (video p);
            audioPlayable = playable (audio p);
            acc1 = (if videoPlayable \<and> audioPlayable
                    then (True, (snd acc)\<lparr>replicaConnected := True,
                                           connectionStatus := AssistantReady (length books),
                                           isConnecting := False\<rparr>)
                    else acc);
            st2 = (if videoPlayable
                   then (case offered (video p) of
                           None \<Rightarrow> snd acc1
                         | Some videoTrack \<Rightarrow> displayReplicaVideo volumeOn videoTrack (snd acc1))
                   else snd acc1);
            st3 = (if audioPlayable
                   then (case offered (audio p) of
                           None \<Rightarrow> st2
                         | Some audioTrack \<Rightarrow> handleReplicaAudio volumeOn audioTrack st2)
                   else st2)
        in (fst acc1, st3))"

fun forEach_participant ::
  "bool \<Rightarrow> book list \<Rightarrow> (string \<times> participant) list \<Rightarrow> bool \<times> session \<Rightarrow> bool \<times> session" where
  "forEach_participant volumeOn books [] acc = acc"
| "forEach_participant volumeOn books (entry # rest) acc =
     forEach_participant volumeOn books rest (bind_participant volumeOn books entry acc)"

definition updateReplicaVideo ::
  "bool \<Rightarrow> book list \<Rightarrow> (string \<times> participant) list \<Rightarrow> session \<Rightarrow> session" where
  "updateReplicaVideo volumeOn books participants st =
     (case callObjectRef st of
        None \<Rightarrow> st
      | Some c \<Rightarrow>
          let r = forEach_participant volumeOn books participants (False, st)
          in if \<not> fst r
             then (snd r)\<lparr>replicaConnected := False,
                          connectionStatus := WaitingForAssistantMedia\<rparr>
             else snd r)"

section \<open>Sample data\<close>

text \<open>
  The state of a freshly mounted component: the initial values of its state hooks and
  refs (the \<open>video\<close> element is not rendered yet, so \<open>videoRef\<close> is empty), no timer
  pending, nothing called yet.
\<close>

definition initial_session :: session where
  "initial_session =
     \<lparr>conversation = None, isConnected = False, isConnecting = False, error = None,
      isVolumeOn = True, replicaConnected = False, connectionStatus = ReadyToStart,
      lastToolCall = [], toolCallHistory = [], personaCreated = False,
      naturalResponseCount = 0, restrictedResponseCount = 0,
      videoRef = None,
      callObjectRef = None, conversationIdRef = None, timers = [], trace = []\<rparr>"

text \<open>
  Stand-ins for the platform parameters in the examples: a parser that knows one text,
  a rendering that abbreviates the arguments, a conversion under which no string,
  array or object is a number, and a lower-casing that leaves the strings outside
  ASCII as they are. The examples use ASCII strings only.
\<close>

definition parse_only :: "string \<Rightarrow> json \<Rightarrow> string \<Rightarrow> js_error + json" where
  "parse_only src v s = (if s = src then Inr v else Inl (SyntaxError ''Unexpected token''))"

definition sample_render :: "json \<Rightarrow> json \<Rightarrow> string" where
  "sample_render fname args = (case fname of JStr s \<Rightarrow> s @ ''(...)'' | _ \<Rightarrow> ''?(...)'')"

definition no_coerce :: "json \<Rightarrow> int option" where
  "no_coerce v = None"

definition no_lower :: "string \<Rightarrow> string" where
  "no_lower s = s"

text \<open>
  A catalog of ten books, three of them with the subject \<open>SCIENCE\<close>; one more has the
  subject in lower case and one has the word in its title.
\<close>

definition sample_book :: "string \<Rightarrow> string \<Rightarrow> string \<Rightarrow> book" where
  "sample_book t a s =
     \<lparr>title = t, author = a, subject = s, difficulty_level = ''beginner'',
      target_age_min = 5, target_age_max = 9, description = None\<rparr>"

definition sample_catalog :: "book list" where
  "sample_catalog =
     [sample_book ''The Water Cycle'' ''Ada Brook'' ''SCIENCE'',
      sample_book ''Luna and the Garden'' ''May Field'' ''STORY'',
      sample_book ''Counting Stars'' ''Ben Hale'' ''MATHS'',
      sample_book ''Inside a Volcano'' ''Ada Brook'' ''SCIENCE'',
      sample_book ''The Brave Rabbit'' ''Tom Reed'' ''STORY'',
      sample_book ''Shapes Around Us'' ''Ben Hale'' ''MATHS'',
      sample_book ''How Plants Grow'' ''Ivy West'' ''SCIENCE'',
      sample_book ''A Song for Flower'' ''May Field'' ''STORY'',
      sample_book ''Maps of the World'' ''Kit Lane'' ''GEOGRAPHY'',
      sample_book ''Science Fair Mystery'' ''Tom Reed'' ''science'']"

section \<open>Dispatching the subject filter\<close>

definition subject_call :: "json \<Rightarrow> tool_call" where
  "subject_call args = \<lparr>function_name = JStr ''filter_books_by_subject'', arguments = args\<rparr>"

text \<open>
  The match count as the specification words it: equality with the book's subject,
  letter case included, except for the sentinel \<open>ALL\<close>.
\<close>

definition subject_count :: "book list \<Rightarrow> json \<Rightarrow> nat" where
  "subject_count books s =
     (if s = JStr ''ALL'' then length books
      else length (filter (\<lambda>b. JStr (subject b) = s) books))"

lemma filter_changes_append: "filter_changes (xs @ ys) = filter_changes xs @ filter_changes ys"
  by (induction xs rule: filter_changes.induct) simp_all


lemma executed_append: "executed (xs @ ys) = executed xs @ executed ys"
  by (induction xs rule: executed.induct) simp_all

lemma ended_append: "ended (xs @ ys) = ended xs @ ended ys"
  by (induction xs rule: ended.induct) simp_all

lemma sent_append: "sent (xs @ ys) = sent xs @ sent ys"
  by (induction xs rule: sent.induct) simp_all

lemma read_prop_defined:
  "args \<noteq> JUndefined \<Longrightarrow> args \<noteq> JNull \<Longrightarrow> read_prop args k = Inr (getp args k)"
  by (cases args) simp_all

lemma dispatch_subject:
  assumes "args \<noteq> JUndefined" and "args \<noteq> JNull"
  shows "dispatch lower coerce books (JStr ''filter_books_by_subject'') args st =
           Inr (st\<lparr>trace := trace st @
                       [FilterChange (no_filters\<lparr>selectedSubject := Some (getp args ''subject'')\<rparr>)],
                   connectionStatus :=
                       ShowingSubject (subject_count books (getp args ''subject''))
                                      (getp args ''subject'')\<rparr>)"
  using assms by (auto simp: dispatch_def read_prop_defined subject_count_def Let_def)

text \<open>
  C6. When the arguments of a \<open>filter_books_by_subject\<close> call are an object (anything
  but \<open>null\<close> and \<open>undefined\<close>), the dispatcher makes exactly one call of
  \<open>onFilterChange\<close>, with \<open>selectedSubject\<close> set to the subject argument as it came, and
  reports in the status the number of books whose subject equals the argument exactly,
  or the size of the catalog for \<open>ALL\<close>. In particular, on a catalog of ten books of
  which three have the subject \<open>SCIENCE\<close>, the call with \<open>{subject: "SCIENCE"}\<close> reports 3
  and adds the single callback \<open>onFilterChange({selectedSubject: "SCIENCE"})\<close>.
\<close>

theorem filter_books_by_subject_dispatch:
  assumes "args \<noteq> JUndefined" and "args \<noteq> JNull"
  shows "trace (executeToolCall lower render coerce books (subject_call args) st)
           = trace st @ [ExecuteToolCall (subject_call args),
                         FilterChange (no_filters\<lparr>selectedSubject := Some (getp args ''subject'')\<rparr>)]
         \<and> connectionStatus (executeToolCall lower render coerce books (subject_call args) st)
           = ShowingSubject (subject_count books (getp args ''subject'')) (getp args ''subject'')
         \<and> (length books = 10 \<and> length (filter (\<lambda>b. subject b = ''SCIENCE'') books) = 3
              \<and> args = JObj [(''subject'', JStr ''SCIENCE'')]
            \<longrightarrow> connectionStatus (executeToolCall lower render coerce books (subject_call args) st)
                  = ShowingSubject 3 (JStr ''SCIENCE'')
                \<and> filter_changes (trace (executeToolCall lower render coerce books (subject_call args) st))
                  = filter_changes (trace st)
                    @ [no_filters\<lparr>selectedSubject := Some (JStr ''SCIENCE'')\<rparr>])"
proof -
  let ?s = "getp args ''subject''"
  have t: "trace (executeToolCall lower render coerce books (subject_call args) st)
           = trace st @ [ExecuteToolCall (subject_call args),
                         FilterChange (no_filters\<lparr>selectedSubject := Some ?s\<rparr>)]"
    by (simp add: executeToolCall_def subject_call_def dispatch_subject [OF assms] Let_def)
  have c: "connectionStatus (executeToolCall lower render coerce books (subject_call args) st)
           = ShowingSubject (subject_count books ?s) ?s"
    by (simp add: executeToolCall_def subject_call_def dispatch_subject [OF assms] Let_def)
  show ?thesis
    unfolding t c by (auto simp: subject_count_def filter_changes_append)
qed

theorem filter_books_by_subject_dispatch_witness:
  "length sample_catalog = 10
   \<and> length (filter (\<lambda>b. subject b = ''SCIENCE'') sample_catalog) = 3
   \<and> connectionStatus (executeToolCall no_lower sample_render no_coerce sample_catalog
         (subject_call (JObj [(''subject'', JStr ''SCIENCE'')])) initial_session)
       = ShowingSubject 3 (JStr ''SCIENCE'')
   \<and> filter_changes (trace (executeToolCall no_lower sample_render no_coerce sample_catalog
         (subject_call (JObj [(''subject'', JStr ''SCIENCE'')])) initial_session))
       = [no_filters\<lparr>selectedSubject := Some (JStr ''SCIENCE'')\<rparr>]"
proof -
  have n: "JObj [(''subject'', JStr ''SCIENCE'')] \<noteq> JUndefined"
    and m: "JObj [(''subject'', JStr ''SCIENCE'')] \<noteq> JNull"
    by simp_all
  have l: "length sample_catalog = 10"
    by (simp add: sample_catalog_def)
  have f: "length (filter (\<lambda>b. subject b = ''SCIENCE'') sample_catalog) = 3"
    by (simp add: sample_catalog_def sample_book_def)
  have i: "filter_changes (trace initial_session) = []"
    by (simp add: initial_session_def)
  from filter_books_by_subject_dispatch
         [OF n m, of no_lower sample_render no_coerce sample_catalog initial_session] l f
  have "connectionStatus (executeToolCall no_lower sample_render no_coerce sample_catalog
            (subject_call (JObj [(''subject'', JStr ''SCIENCE'')])) initial_session)
          = ShowingSubject 3 (JStr ''SCIENCE'')
        \<and> filter_changes (trace (executeToolCall no_lower sample_render no_coerce sample_catalog
            (subject_call (JObj [(''subject'', JStr ''SCIENCE'')])) initial_session))
          = filter_changes (trace initial_session)
            @ [no_filters\<lparr>selectedSubject := Some (JStr ''SCIENCE'')\<rparr>]"
    by blast
  with l f i show ?thesis by simp
qed

section \<open>Dispatching recommendations\<close>

definition recommend_call :: "json \<Rightarrow> tool_call" where
  "recommend_call args = \<lparr>function_name = JStr ''recommend_books'', arguments = args\<rparr>"

lemma take_min_length: "take (min n (length xs)) xs = take n xs"
  by (simp add: min_def)

lemma recommended_empty: "recommended lower [] b"
  by (simp add: recommended_def str_includes_def)

text \<open>
  C10. With the empty preference string every book matches, so the recommendation
  callback receives the first \<open>min 6 n\<close> books of a catalog of \<open>n\<close> books, in catalog
  order, whatever the catalog; the filter callback is not called.
\<close>

theorem recommend_books_empty_preferences:
  "trace (executeToolCall lower render coerce books
            (recommend_call (JObj [(''preferences'', JStr [])])) st)
     = trace st @ [ExecuteToolCall (recommend_call (JObj [(''preferences'', JStr [])])),
                   BookRecommendation (take (min 6 (length books)) books)]
   \<and> connectionStatus (executeToolCall lower render coerce books
            (recommend_call (JObj [(''preferences'', JStr [])])) st)
     = FoundRecommendations (min 6 (length books))"
  by (simp add: executeToolCall_def recommend_call_def dispatch_def getRecommendedBooks_def
        toLowerCase_def ascii_def recommended_empty take_min_length Let_def)

theorem recommend_books_empty_preferences_witness:
  "recommendations (trace (executeToolCall no_lower sample_render no_coerce sample_catalog
            (recommend_call (JObj [(''preferences'', JStr [])])) initial_session))
     = [take 6 sample_catalog]
   \<and> length (take 6 sample_catalog) = 6"
  using recommend_books_empty_preferences [of no_lower sample_render no_coerce sample_catalog initial_session]
  by (simp add: sample_catalog_def initial_session_def recommend_call_def)












lemma ascii_append: "ascii (xs @ ys) \<longleftrightarrow> ascii xs \<and> ascii ys"
  by (simp add: ascii_def)








section \<open>Events without a tool call\<close>

text \<open>
  The payloads that the handler gives to the normalizer: \<open>event.data\<close>, the event,
  \<open>event.payload\<close> and \<open>event.message\<close>.
\<close>

definition payload_candidates :: "json \<Rightarrow> json list" where
  "payload_candidates event =
     [getp event ''data'', event, getp event ''payload'', getp event ''message'']"

text \<open>
  A recognized user utterance: the event type \<open>conversation.utterance\<close>, the role
  \<open>user\<close>, and a speech text.
\<close>

definition recognized_user_utterance :: "json \<Rightarrow> bool" where
  "recognized_user_utterance event =
     (is_utterance_of ''user'' (getp event ''data'')
      \<and> (case getp (getp (getp event ''data'') ''properties'') ''speech'' of
            JStr s \<Rightarrow> True
          | _ \<Rightarrow> False))"

lemma otherwise_no_call:
  "r \<noteq> Inr (Some tc) \<Longrightarrow> alt \<noteq> Inr (Some tc) \<Longrightarrow> otherwise r alt \<noteq> Inr (Some tc)"
  by (auto simp: otherwise_def split: sum.splits option.splits)

lemma toolCallData_of_no_call:
  assumes "\<forall>p \<in> set (payload_candidates event). \<forall>tc. extractToolCallFromData parse p \<noteq> Inr (Some tc)"
  shows "toolCallData_of parse event \<noteq> Inr (Some tc)"
proof -
  from assms have d: "extractToolCallFromData parse (getp event ''data'') \<noteq> Inr (Some tc)"
    and e: "extractToolCallFromData parse event \<noteq> Inr (Some tc)"
    and p: "extractToolCallFromData parse (getp event ''payload'') \<noteq> Inr (Some tc)"
    and m: "extractToolCallFromData parse (getp event ''message'') \<noteq> Inr (Some tc)"
    by (simp_all add: payload_candidates_def)
  show ?thesis
    unfolding toolCallData_of_def Let_def
    by (intro otherwise_no_call) (auto simp: d e p m split: sum.splits bool.splits)
qed

lemma trace_track_replica_response:
  "track_replica_response data st = Inr st1 \<Longrightarrow> trace st1 = trace st"
  by (auto simp: track_replica_response_def Let_def split: if_splits sum.splits)

lemma tryManualToolCall_not_string:
  "(case v of JStr s \<Rightarrow> False | _ \<Rightarrow> True) \<Longrightarrow> \<exists>e. tryManualToolCall lower render coerce books v st = Inl e"
  by (cases v) (simp_all add: tryManualToolCall_def)

text \<open>
  C5. When the normalizer finds a tool call in none of the payloads of an event and the
  event is not a recognized user utterance, handling the event invokes neither the
  dispatcher nor any callback: the trace of calls is unchanged, also when the handler
  throws.
\<close>

theorem no_tool_call_no_dispatch:
  assumes "\<forall>p \<in> set (payload_candidates event). \<forall>tc. extractToolCallFromData parse p \<noteq> Inr (Some tc)"
    and "\<not> recognized_user_utterance event"
  shows "trace (state_of (handleTavusEvent parse lower render coerce books event st)) = trace st
         \<and> executed (trace (state_of (handleTavusEvent parse lower render coerce books event st)))
           = executed (trace st)"
proof -
  have "trace (state_of (handleTavusEvent parse lower render coerce books event st)) = trace st"
  proof (cases "read_prop event ''data''")
    case (Inl e)
    then show ?thesis by (simp add: handleTavusEvent_def)
  next
    case (Inr data)
    then have data: "data = getp event ''data''"
      by (cases event) auto
    show ?thesis
    proof (cases "track_replica_response data st")
      case (Inl e)
      with Inr show ?thesis by (simp add: handleTavusEvent_def)
    next
      case st1: (Inr st1)
      then have t1: "trace st1 = trace st"
        by (rule trace_track_replica_response)
      have nc: "toolCallData_of parse event \<noteq> Inr (Some tc)" for tc
        by (rule toolCallData_of_no_call [OF assms(1)])
      have "(\<exists>e. toolCallData_of parse event = Inl e) \<or> toolCallData_of parse event = Inr None"
      proof (cases "toolCallData_of parse event")
        case (Inl a)
        then show ?thesis by simp
      next
        case (Inr b)
        with nc show ?thesis by (cases b) auto
      qed
      then consider e where "toolCallData_of parse event = Inl e"
        | "toolCallData_of parse event = Inr None"
        by blast
      then show ?thesis
      proof cases
        case 1
        with Inr st1 t1 show ?thesis by (simp add: handleTavusEvent_def)
      next
        case 2
        show ?thesis
        proof (cases "is_utterance_of ''user'' data")
          case False
          with 2 Inr st1 t1 show ?thesis by (simp add: handleTavusEvent_def)
        next
          case True
          with assms(2) data
          have "case getp (getp data ''properties'') ''speech'' of JStr s \<Rightarrow> False | _ \<Rightarrow> True"
            by (auto simp: recognized_user_utterance_def split: json.splits)
          from tryManualToolCall_not_string [OF this] obtain e where
            "tryManualToolCall lower render coerce books (getp (getp data ''properties'') ''speech'') st1 = Inl e"
            by blast
          with 2 Inr st1 t1 True show ?thesis by (simp add: handleTavusEvent_def)
        qed
      qed
    qed
  qed
  then show ?thesis by simp
qed

text \<open>An utterance of the replica: no tool call, and not the user's.\<close>

definition replica_greeting :: json where
  "replica_greeting =
     JObj [(''data'',
            JObj [(''event_type'', JStr ''conversation.utterance''),
                  (''properties'', JObj [(''role'', JStr ''replica''),
                                         (''speech'', JStr ''Hello there'')])])]"

lemmas extract_eval =
  extractToolCallFromData.simps direct_fields_def nested_properties_def tool_calls_array_def
  conversation_event_def choice_tool_calls_def function_descriptor_def from_descriptor_def

text \<open>A parser that rejects every text, for examples in which nothing is parsed.\<close>

definition no_parse :: "string \<Rightarrow> js_error + json" where
  "no_parse s = Inl (SyntaxError ''Unexpected token'')"

theorem no_tool_call_no_dispatch_witness:
  "list_all (\<lambda>p. extractToolCallFromData no_parse p = Inr None) (payload_candidates replica_greeting)
   \<and> \<not> recognized_user_utterance replica_greeting
   \<and> trace (state_of (handleTavusEvent no_parse no_lower sample_render no_coerce sample_catalog
                         replica_greeting initial_session)) = []"
proof -
  have a: "list_all (\<lambda>p. extractToolCallFromData no_parse p = Inr None)
             (payload_candidates replica_greeting)"
    by (simp add: payload_candidates_def replica_greeting_def extract_eval)
  then have h: "\<forall>p \<in> set (payload_candidates replica_greeting).
                  \<forall>tc. extractToolCallFromData no_parse p \<noteq> Inr (Some tc)"
    by (simp add: list_all_iff)
  have u: "\<not> recognized_user_utterance replica_greeting"
    by (simp add: recognized_user_utterance_def is_utterance_of_def replica_greeting_def)
  from no_tool_call_no_dispatch
         [OF h u, of no_lower sample_render no_coerce sample_catalog initial_session] a u
  show ?thesis by (simp add: initial_session_def)
qed

section \<open>The wire shapes of one tool call\<close>

text \<open>
  The call of \<open>filter_books_by_subject\<close> with the argument \<open>subject = "SCIENCE"\<close>, in
  canonical form and in the six shapes in which it can arrive. Where the shape carries
  a function descriptor, its arguments \<open>a\<close> are the object itself or a string with the
  object's JSON text.
\<close>

definition science_arguments :: json where
  "science_arguments = JObj [(''subject'', JStr ''SCIENCE'')]"

definition canonical_call :: tool_call where
  "canonical_call =
     \<lparr>function_name = JStr ''filter_books_by_subject'', arguments = science_arguments\<rparr>"

definition descriptor :: "json \<Rightarrow> json" where
  "descriptor a = JObj [(''name'', JStr ''filter_books_by_subject''), (''arguments'', a)]"

definition shape_direct :: json where
  "shape_direct =
     JObj [(''function_name'', JStr ''filter_books_by_subject''),
           (''arguments'', science_arguments)]"

definition shape_properties :: json where
  "shape_properties = JObj [(''properties'', shape_direct)]"

text \<open>
  In the two shapes with arrays the call is the first element; \<open>rest\<close> and \<open>others\<close> are
  whatever follows it.
\<close>

definition shape_tool_calls :: "json \<Rightarrow> json list \<Rightarrow> json" where
  "shape_tool_calls a rest =
     JObj [(''tool_calls'', JArr (JObj [(''function'', descriptor a)] # rest))]"

definition shape_tagged :: "json \<Rightarrow> json" where
  "shape_tagged inner =
     JObj [(''event_type'', JStr ''conversation.toolcall''), (''properties'', inner)]"

definition shape_choices :: "json \<Rightarrow> json list \<Rightarrow> json list \<Rightarrow> json" where
  "shape_choices a rest others =
     JObj [(''choices'',
            JArr (JObj [(''message'',
                         JObj [(''tool_calls'',
                                JArr (JObj [(''function'', descriptor a)] # rest))])]
                  # others))]"

definition shape_function :: "json \<Rightarrow> json" where
  "shape_function a = JObj [(''function'', descriptor a)]"

text \<open>
  The normalizer as the specification words it: an ordered list of strategies, each a
  total function from a payload to an optional tool call, and the result is that of
  the first strategy that succeeds. The strategies are the six blocks of the source
  (the two wrappers are a block each, with the nested extraction as their result); a
  block succeeds when it yields a tool call, and does not when it falls through or
  throws.
\<close>

fun first_success :: "('a \<Rightarrow> 'b option) list \<Rightarrow> 'a \<Rightarrow> 'b option" where
  "first_success [] d = None"
| "first_success (s # ss) d = (case s d of Some r \<Rightarrow> Some r | None \<Rightarrow> first_success ss d)"

definition tagged_wrapper ::
  "(string \<Rightarrow> js_error + json) \<Rightarrow> json \<Rightarrow> js_error + tool_call option" where
  "tagged_wrapper parse data =
     (if conversation_event data
      then extractToolCallFromData parse (getp data ''properties'')
      else Inr None)"

definition choice_wrapper ::
  "(string \<Rightarrow> js_error + json) \<Rightarrow> json \<Rightarrow> js_error + tool_call option" where
  "choice_wrapper parse data =
     (case choice_tool_calls data of
        Inl e \<Rightarrow> Inl e
      | Inr None \<Rightarrow> Inr None
      | Inr (Some tcs) \<Rightarrow> extractToolCallFromData parse (JObj [(''tool_calls'', tcs)]))"

definition blocks ::
  "(string \<Rightarrow> js_error + json) \<Rightarrow> (json \<Rightarrow> js_error + tool_call option) list" where
  "blocks parse =
     [\<lambda>data. Inr (direct_fields data),
      \<lambda>data. Inr (nested_properties data),
      tool_calls_array parse,
      tagged_wrapper parse,
      choice_wrapper parse,
      function_descriptor parse]"

definition succeeds :: "js_error + tool_call option \<Rightarrow> tool_call option" where
  "succeeds r = (case r of Inr (Some tc) \<Rightarrow> Some tc | _ \<Rightarrow> None)"

definition strategies ::
  "(string \<Rightarrow> js_error + json) \<Rightarrow> (json \<Rightarrow> tool_call option) list" where
  "strategies parse = map (\<lambda>block data. succeeds (block data)) (blocks parse)"

definition normalizer_first_success ::
  "(string \<Rightarrow> js_error + json) \<Rightarrow> json \<Rightarrow> tool_call option" where
  "normalizer_first_success parse data = first_success (strategies parse) data"

text \<open>
  What the source does with a block that throws: the first block that yields a tool
  call or throws decides, and the exception leaves the normalizer.
\<close>

fun first_outcome :: "('a \<Rightarrow> js_error + 'b option) list \<Rightarrow> 'a \<Rightarrow> js_error + 'b option" where
  "first_outcome [] d = Inr None"
| "first_outcome (s # ss) d =
     (case s d of
        Inl e \<Rightarrow> Inl e
      | Inr (Some r) \<Rightarrow> Inr (Some r)
      | Inr None \<Rightarrow> first_outcome ss d)"

text \<open>
  The payload reaches the wrapper blocks when the first three blocks fall through. A
  wrapper comes back empty when it applies there and its nested extraction finds
  nothing: block 4 when the payload is tagged, block 5 otherwise.
\<close>

definition reaches_wrappers :: "(string \<Rightarrow> js_error + json) \<Rightarrow> json \<Rightarrow> bool" where
  "reaches_wrappers parse data =
     (truthy data \<and> direct_fields data = None \<and> nested_properties data = None
      \<and> tool_calls_array parse data = Inr None)"

definition wrapper_empty :: "(string \<Rightarrow> js_error + json) \<Rightarrow> json \<Rightarrow> bool" where
  "wrapper_empty parse data =
     (reaches_wrappers parse data
      \<and> (if conversation_event data
         then tagged_wrapper parse data = Inr None
         else choice_tool_calls data \<noteq> Inr None \<and> choice_wrapper parse data = Inr None))"

text \<open>
  A payload tagged as a conversation message whose \<open>properties\<close> hold a text and no
  tool call, and which carries a bare function descriptor beside them; and a payload
  whose \<open>tool_calls\<close> array holds \<open>null\<close>, with a bare function descriptor beside it.
\<close>

definition tagged_text_with_descriptor :: json where
  "tagged_text_with_descriptor =
     JObj [(''message_type'', JStr ''conversation''),
           (''properties'', JObj [(''text'', JStr ''hello'')]),
           (''function'', descriptor science_arguments)]"

definition null_call_with_descriptor :: json where
  "null_call_with_descriptor =
     JObj [(''tool_calls'', JArr [JNull]), (''function'', descriptor science_arguments)]"

lemmas shape_defs =
  science_arguments_def canonical_call_def descriptor_def shape_direct_def shape_properties_def
  shape_tool_calls_def shape_tagged_def shape_choices_def shape_function_def

lemmas normalizer_eval =
  normalizer_first_success_def strategies_def blocks_def succeeds_def
  tagged_wrapper_def choice_wrapper_def

text \<open>
  On the first payload the first strategy that succeeds is the bare function
  descriptor, but the source returns \<open>null\<close>: block 4 applies and returns the result of
  its nested extraction, which finds nothing.
\<close>

theorem first_success_counterexample:
  "extractToolCallFromData no_parse tagged_text_with_descriptor = Inr None
   \<and> normalizer_first_success no_parse tagged_text_with_descriptor = Some canonical_call"
  by (simp add: tagged_text_with_descriptor_def normalizer_eval extract_eval shape_defs)

text \<open>
  On the second payload the bare function descriptor succeeds as well, but the source
  throws in block 3, which reads \<open>function\<close> of the \<open>null\<close> element.
\<close>

lemma throwing_block_example:
  "extractToolCallFromData no_parse null_call_with_descriptor
     = Inl (TypeError ''Cannot read properties of null: function'')"
  "normalizer_first_success no_parse null_call_with_descriptor = Some canonical_call"
  by (simp_all add: null_call_with_descriptor_def normalizer_eval extract_eval shape_defs)

lemma shapes_object:
  "extractToolCallFromData parse shape_direct = Inr (Some canonical_call)"
  "extractToolCallFromData parse shape_properties = Inr (Some canonical_call)"
  "extractToolCallFromData parse (shape_tool_calls science_arguments rest) = Inr (Some canonical_call)"
  "extractToolCallFromData parse (shape_tagged shape_direct) = Inr (Some canonical_call)"
  "extractToolCallFromData parse (shape_tagged (shape_function science_arguments))
     = Inr (Some canonical_call)"
  "extractToolCallFromData parse (shape_choices science_arguments rest others)
     = Inr (Some canonical_call)"
  "extractToolCallFromData parse (shape_function science_arguments) = Inr (Some canonical_call)"
  by (simp_all add: extract_eval shape_defs)

lemma shapes_string:
  assumes "parse s = Inr science_arguments"
  shows "extractToolCallFromData parse (shape_tool_calls (JStr s) rest) = Inr (Some canonical_call)"
  "extractToolCallFromData parse (shape_choices (JStr s) rest others) = Inr (Some canonical_call)"
  "extractToolCallFromData parse (shape_function (JStr s)) = Inr (Some canonical_call)"
  using assms by (simp_all add: extract_eval shape_defs)

lemma wrapper_final:
  assumes "reaches_wrappers parse data"
  shows "conversation_event data \<Longrightarrow>
           extractToolCallFromData parse data
             = extractToolCallFromData parse (getp data ''properties'')"
    and "\<not> conversation_event data \<Longrightarrow> choice_tool_calls data = Inr (Some tcs) \<Longrightarrow>
           extractToolCallFromData parse data
             = extractToolCallFromData parse (JObj [(''tool_calls'', tcs)])"
  using assms
  by (subst extractToolCallFromData.simps, simp add: reaches_wrappers_def)+

lemma wrapper_empty_final:
  assumes "wrapper_empty parse data"
  shows "extractToolCallFromData parse data = Inr None"
proof (cases "conversation_event data")
  case True
  with assms wrapper_final(1) [of parse data] show ?thesis
    by (simp add: wrapper_empty_def tagged_wrapper_def)
next
  case False
  with assms obtain tcs where c: "choice_tool_calls data = Inr (Some tcs)"
    and n: "extractToolCallFromData parse (JObj [(''tool_calls'', tcs)]) = Inr None"
    by (auto simp: wrapper_empty_def choice_wrapper_def split: sum.splits option.splits)
  from assms wrapper_final(2) [OF _ False c] n show ?thesis
    by (simp add: wrapper_empty_def)
qed

lemma first_outcome_returns:
  "first_outcome bs d = Inr r \<Longrightarrow> first_success (map (\<lambda>block data. succeeds (block data)) bs) d = r"
  by (induction bs) (auto simp: succeeds_def split: sum.splits option.splits)


lemma first_outcome_fallthrough:
  "r \<noteq> Inr None \<Longrightarrow> (case r of Inl e \<Rightarrow> Inl e | Inr None \<Rightarrow> alt | Inr (Some x) \<Rightarrow> Inr (Some x)) = r"
  by (cases r) (auto split: option.splits)

lemma first_outcome_falsy:
  "\<not> truthy data \<Longrightarrow> first_outcome (blocks parse) data = Inr None"
  by (cases data)
     (simp_all add: blocks_def direct_fields_def nested_properties_def tool_calls_array_def
        tagged_wrapper_def conversation_event_def choice_wrapper_def choice_tool_calls_def
        function_descriptor_def)

lemma first_outcome_refines:
  assumes "\<not> wrapper_empty parse data"
  shows "extractToolCallFromData parse data = first_outcome (blocks parse) data"
proof (cases "truthy data")
  case False
  then show ?thesis
    by (subst extractToolCallFromData.simps) (simp add: first_outcome_falsy)
next
  case t: True
  show ?thesis
  proof (cases "direct_fields data")
    case (Some tc)
    with t show ?thesis
      by (subst extractToolCallFromData.simps) (simp add: blocks_def)
  next
    case d: None
    show ?thesis
    proof (cases "nested_properties data")
      case (Some tc)
      with t d show ?thesis
        by (subst extractToolCallFromData.simps) (simp add: blocks_def)
    next
      case n: None
      show ?thesis
      proof (cases "tool_calls_array parse data")
        case (Inl e)
        with t d n show ?thesis
          by (subst extractToolCallFromData.simps) (simp add: blocks_def)
      next
        case (Inr r)
        show ?thesis
        proof (cases r)
          case (Some tc)
          with t d n Inr show ?thesis
            by (subst extractToolCallFromData.simps) (simp add: blocks_def)
        next
          case None
          with t d n Inr have reach: "reaches_wrappers parse data"
            by (simp add: reaches_wrappers_def)
          show ?thesis
          proof (cases "conversation_event data")
            case True
            with assms reach have w: "tagged_wrapper parse data \<noteq> Inr None"
              by (simp add: wrapper_empty_def)
            from True have code: "extractToolCallFromData parse data = tagged_wrapper parse data"
              using wrapper_final(1) [OF reach] by (simp add: tagged_wrapper_def)
            have "first_outcome (blocks parse) data = tagged_wrapper parse data"
              using t d n Inr None first_outcome_fallthrough [OF w]
              by (simp add: blocks_def)
            with code show ?thesis by simp
          next
            case False
            then have tw: "tagged_wrapper parse data = Inr None"
              by (simp add: tagged_wrapper_def)
            have code: "extractToolCallFromData parse data =
                  (case choice_tool_calls data of
                     Inl e \<Rightarrow> Inl e
                   | Inr (Some tcs) \<Rightarrow> extractToolCallFromData parse (JObj [(''tool_calls'', tcs)])
                   | Inr None \<Rightarrow> function_descriptor parse data)"
              using t d n Inr None False
              by (subst extractToolCallFromData.simps) simp
            have spec: "first_outcome (blocks parse) data =
                  (case choice_wrapper parse data of
                     Inl e \<Rightarrow> Inl e
                   | Inr (Some x) \<Rightarrow> Inr (Some x)
                   | Inr None \<Rightarrow> first_outcome [function_descriptor parse] data)"
              using t d n Inr None tw
              by (simp add: blocks_def)
            have fd: "first_outcome [function_descriptor parse] data
                        = function_descriptor parse data"
              by (auto split: sum.splits option.splits)
            show ?thesis
            proof (cases "choice_tool_calls data = Inr None")
              case True
              then show ?thesis
                unfolding code spec fd by (simp add: choice_wrapper_def)
            next
              case c: False
              with assms reach False have w: "choice_wrapper parse data \<noteq> Inr None"
                by (simp add: wrapper_empty_def)
              have "extractToolCallFromData parse data = choice_wrapper parse data"
                unfolding code choice_wrapper_def using c
                by (auto split: sum.splits option.splits)
              moreover have "first_outcome (blocks parse) data = choice_wrapper parse data"
                unfolding spec by (rule first_outcome_fallthrough [OF w])
              ultimately show ?thesis by simp
            qed
          qed
        qed
      qed
    qed
  qed
qed

lemma returns_first_success:
  assumes "\<not> wrapper_empty parse data" and "extractToolCallFromData parse data = Inr r"
  shows "r = normalizer_first_success parse data"
  using first_outcome_returns [of "blocks parse" data r] first_outcome_refines [OF assms(1)] assms(2)
  by (simp add: normalizer_first_success_def strategies_def)


text \<open>
  The JSON text of the arguments object, with its double quotes, and a second,
  different call to follow the first in an array.
\<close>

definition science_text :: string where
  "science_text =
     ''{'' @ [CHR 0x22] @ ''subject'' @ [CHR 0x22] @ '':'' @ [CHR 0x22] @ ''SCIENCE'' @ [CHR 0x22] @ ''}''"

definition other_call :: json where
  "other_call =
     JObj [(''function'',
            JObj [(''name'', JStr ''search_books''),
                  (''arguments'', JObj [(''searchTerm'', JStr ''animals'')])])]"

text \<open>
  C3 (as amended). The call in each of the six wire shapes normalizes to the same
  canonical call, whatever the parser and whatever follows the call in the arrays of
  the multi-call and choice shapes (only the first element is read); so do the shapes
  with string-encoded arguments when the parser reads the string as the arguments
  object. The blocks are tried in order. Unless a wrapper comes back empty, the
  outcome is that of the first block that yields a tool call or throws, so that a
  normalizer that returns, returns the result of the first strategy that succeeds.
  The result of a wrapper block is final: a payload that reaches block 4 tagged, or
  block 5 with a choice, gets the outcome of the nested extraction, and when that is
  empty the normalizer returns none without trying the later blocks.
\<close>

theorem tool_call_shapes_normalize:
  "extractToolCallFromData parse shape_direct = Inr (Some canonical_call)
   \<and> extractToolCallFromData parse shape_properties = Inr (Some canonical_call)
   \<and> extractToolCallFromData parse (shape_tool_calls science_arguments rest)
       = Inr (Some canonical_call)
   \<and> extractToolCallFromData parse (shape_tagged shape_direct) = Inr (Some canonical_call)
   \<and> extractToolCallFromData parse (shape_tagged (shape_function science_arguments))
       = Inr (Some canonical_call)
   \<and> extractToolCallFromData parse (shape_choices science_arguments rest others)
       = Inr (Some canonical_call)
   \<and> extractToolCallFromData parse (shape_function science_arguments) = Inr (Some canonical_call)
   \<and> (parse s = Inr science_arguments \<longrightarrow>
         extractToolCallFromData parse (shape_tool_calls (JStr s) rest) = Inr (Some canonical_call)
         \<and> extractToolCallFromData parse (shape_choices (JStr s) rest others)
             = Inr (Some canonical_call)
         \<and> extractToolCallFromData parse (shape_function (JStr s)) = Inr (Some canonical_call))
   \<and> (\<not> wrapper_empty parse data \<longrightarrow>
         extractToolCallFromData parse data = first_outcome (blocks parse) data)
   \<and> (\<not> wrapper_empty parse data \<and> extractToolCallFromData parse data = Inr r \<longrightarrow>
         r = normalizer_first_success parse data)
   \<and> (wrapper_empty parse data \<longrightarrow> extractToolCallFromData parse data = Inr None)
   \<and> (reaches_wrappers parse data \<and> conversation_event data \<longrightarrow>
         extractToolCallFromData parse data
           = extractToolCallFromData parse (getp data ''properties''))
   \<and> (reaches_wrappers parse data \<and> \<not> conversation_event data
         \<and> choice_tool_calls data = Inr (Some tcs) \<longrightarrow>
         extractToolCallFromData parse data
           = extractToolCallFromData parse (JObj [(''tool_calls'', tcs)]))"
proof -
  have a: "parse s = Inr science_arguments \<longrightarrow>
         extractToolCallFromData parse (shape_tool_calls (JStr s) rest) = Inr (Some canonical_call)
         \<and> extractToolCallFromData parse (shape_choices (JStr s) rest others)
             = Inr (Some canonical_call)
         \<and> extractToolCallFromData parse (shape_function (JStr s)) = Inr (Some canonical_call)"
    by (simp add: shapes_string)
  have b: "\<not> wrapper_empty parse data \<longrightarrow>
         extractToolCallFromData parse data = first_outcome (blocks parse) data"
    by (simp add: first_outcome_refines)
  have c: "\<not> wrapper_empty parse data \<and> extractToolCallFromData parse data = Inr r \<longrightarrow>
         r = normalizer_first_success parse data"
    using returns_first_success [of parse data r] by blast
  have d: "wrapper_empty parse data \<longrightarrow> extractToolCallFromData parse data = Inr None"
    by (simp add: wrapper_empty_final)
  have e: "reaches_wrappers parse data \<and> conversation_event data \<longrightarrow>
         extractToolCallFromData parse data
           = extractToolCallFromData parse (getp data ''properties'')"
    using wrapper_final(1) [of parse data] by blast
  have f: "reaches_wrappers parse data \<and> \<not> conversation_event data
         \<and> choice_tool_calls data = Inr (Some tcs) \<longrightarrow>
         extractToolCallFromData parse data
           = extractToolCallFromData parse (JObj [(''tool_calls'', tcs)])"
    using wrapper_final(2) [of parse data tcs] by blast
  from a b c d e f show ?thesis
    by (simp add: shapes_object)
qed

theorem tool_call_shapes_normalize_witness:
  "parse_only science_text science_arguments science_text = Inr science_arguments
   \<and> extractToolCallFromData (parse_only science_text science_arguments)
         (shape_tool_calls (JStr science_text) [other_call]) = Inr (Some canonical_call)
   \<and> extractToolCallFromData (parse_only science_text science_arguments)
         (shape_choices (JStr science_text) [other_call] [JNull]) = Inr (Some canonical_call)
   \<and> \<not> wrapper_empty (parse_only science_text science_arguments)
         (shape_tagged (shape_function science_arguments))
   \<and> reaches_wrappers (parse_only science_text science_arguments)
         (shape_tagged (shape_function science_arguments))
   \<and> conversation_event (shape_tagged (shape_function science_arguments))
   \<and> first_outcome (blocks (parse_only science_text science_arguments))
         (shape_tagged (shape_function science_arguments)) = Inr (Some canonical_call)
   \<and> normalizer_first_success (parse_only science_text science_arguments)
         (shape_tagged (shape_function science_arguments)) = Some canonical_call
   \<and> wrapper_empty (parse_only science_text science_arguments) tagged_text_with_descriptor
   \<and> extractToolCallFromData (parse_only science_text science_arguments)
         tagged_text_with_descriptor = Inr None
   \<and> reaches_wrappers (parse_only science_text science_arguments)
         (shape_choices science_arguments [other_call] [JNull])
   \<and> \<not> conversation_event (shape_choices science_arguments [other_call] [JNull])
   \<and> choice_tool_calls (shape_choices science_arguments [other_call] [JNull])
       = Inr (Some (JArr [JObj [(''function'', descriptor science_arguments)], other_call]))
   \<and> extractToolCallFromData (parse_only science_text science_arguments)
         (JObj [(''tool_calls'',
                 JArr [JObj [(''function'', descriptor science_arguments)], other_call])])
       = Inr (Some canonical_call)"
proof -
  let ?parse = "parse_only science_text science_arguments"
  let ?tagged = "shape_tagged (shape_function science_arguments)"
  let ?choices = "shape_choices science_arguments [other_call] [JNull]"
  let ?tcs = "JArr [JObj [(''function'', descriptor science_arguments)], other_call]"
  have p: "?parse science_text = Inr science_arguments"
    by (simp add: parse_only_def)
  have r: "reaches_wrappers ?parse ?tagged" and c: "conversation_event ?tagged"
    by (simp_all add: reaches_wrappers_def extract_eval shape_defs)
  have w: "\<not> wrapper_empty ?parse ?tagged"
    by (simp add: wrapper_empty_def tagged_wrapper_def extract_eval shape_defs)
  have e: "wrapper_empty ?parse tagged_text_with_descriptor"
    by (simp add: wrapper_empty_def reaches_wrappers_def tagged_wrapper_def
          tagged_text_with_descriptor_def extract_eval shape_defs)
  have r': "reaches_wrappers ?parse ?choices" and c': "\<not> conversation_event ?choices"
    and t: "choice_tool_calls ?choices = Inr (Some ?tcs)"
    by (simp_all add: reaches_wrappers_def extract_eval shape_defs)
  note a = tool_call_shapes_normalize
             [of ?parse "[other_call]" "[JNull]" science_text ?tagged "Some canonical_call" ?tcs]
  note b = tool_call_shapes_normalize
             [of ?parse "[other_call]" "[JNull]" science_text tagged_text_with_descriptor None ?tcs]
  note d = tool_call_shapes_normalize
             [of ?parse "[other_call]" "[JNull]" science_text ?choices None ?tcs]
  from a p have s1: "extractToolCallFromData ?parse (shape_tool_calls (JStr science_text) [other_call])
                       = Inr (Some canonical_call)"
    and s2: "extractToolCallFromData ?parse (shape_choices (JStr science_text) [other_call] [JNull])
               = Inr (Some canonical_call)"
    and s3: "extractToolCallFromData ?parse ?tagged = Inr (Some canonical_call)"
    and s4: "extractToolCallFromData ?parse ?choices = Inr (Some canonical_call)"
    by blast+
  from a w s3 have f: "first_outcome (blocks ?parse) ?tagged = Inr (Some canonical_call)"
    by metis
  from a w s3 have n: "normalizer_first_success ?parse ?tagged = Some canonical_call"
    by metis
  from b e have z: "extractToolCallFromData ?parse tagged_text_with_descriptor = Inr None"
    by blast
  from d r' c' t s4 have y: "extractToolCallFromData ?parse (JObj [(''tool_calls'', ?tcs)])
                               = Inr (Some canonical_call)"
    by metis
  from p s1 s2 w r c f n e z r' c' t y show ?thesis by blast
qed

section \<open>A sample session\<close>

text \<open>
  An environment in which everything succeeds: the configuration is present, the
  provider answers both requests with success, the transport library is loaded and
  its calls resolve. \<open>connected_session\<close> is the fresh component after a start at time 0.
\<close>

definition sample_conversation :: TavusConversation where
  "sample_conversation =
     \<lparr>conversation_id = ''c123'', conversation_name = ''Library Assistant Chat'',
      conversation_url = ''https://tavus.daily.co/c123'', replica_id = ''r1'',
      created_at = ''2025-01-01T00:00:00Z''\<rparr>"

definition ok_response :: http_response where
  "ok_response = \<lparr>ok = True, statusText = ''OK'', errorMessage = []\<rparr>"

definition good_env :: env where
  "good_env =
     \<lparr>apiKey = ''key'', replicaId = ''r1'', personaId = ''p1'',
      createResponse = Inr (ok_response, sample_conversation),
      endResponse = Inr ok_response, dailyLoaded = True,
      joinResult = None, setLocalVideoResult = None, leaveResult = None\<rparr>"

definition connected_session :: session where
  "connected_session = initializeAIAssistant good_env sample_catalog 0 initial_session"

lemmas start_eval =
  initializeAIAssistant_def isConfigured_def createLibraryConversation_def createConversation_def
  joinConversation_def join_failed_def setTimeout_def CONVERSATION_DURATION_def WRAP_UP_TIME_def
  good_env_def ok_response_def sample_conversation_def initial_session_def Let_def

lemma started:
  "initializeAIAssistant good_env sample_catalog now initial_session =
     initial_session
       \<lparr>conversation := Some sample_conversation, isConnected := True,
        connectionStatus := ConnectedWaitingForAssistant,
        callObjectRef := Some DailyCall, conversationIdRef := Some ''c123'',
        timers := [(now + 45000, WrapUpTimer), (now, FinalWarningTimer),
                   (now + 60000, HardTerminationTimer)],
        trace := [CreateLibraryConversation, CreateCallObject,
                  Join ''https://tavus.daily.co/c123'', SetLocalVideo False]\<rparr>"
  by (simp add: start_eval)

section \<open>The timers of a session\<close>

text \<open>
  C1 (the source at a successful start). After a start whose join completes at \<open>now\<close>,
  the wrap-up timer is due at \<open>now + 45000\<close> and the termination timer at
  \<open>now + 60000\<close>, but the final-warning timer is due at \<open>now\<close> itself, not at
  \<open>now + 55000\<close>: fired at that instant it sends the final warning.
\<close>

theorem final_warning_fires_at_join:
  "timers (initializeAIAssistant good_env sample_catalog now initial_session)
     = [(now + 45000, WrapUpTimer), (now, FinalWarningTimer), (now + 60000, HardTerminationTimer)]
   \<and> (now + FINAL_WARNING_TIME, FinalWarningTimer)
       \<notin> set (timers (initializeAIAssistant good_env sample_catalog now initial_session))
   \<and> sent (trace (fire good_env sample_catalog (now, FinalWarningTimer)
                     (initializeAIAssistant good_env sample_catalog now initial_session)))
       = [finalWarning ''c123'']"
  unfolding started
  by (simp add: fire_def send_escalation_def held_id_def initial_session_def
        FINAL_WARNING_TIME_def)


section \<open>Stopping a session\<close>

text \<open>
  The stop completes when the calls it awaits succeed: \<open>leave\<close> if a call object is
  held, \<open>endConversation\<close> if a conversation id is held. \<open>stop_calls\<close> are the calls
  it then makes, \<open>stopped\<close> the state it leaves.
\<close>

definition stop_completes :: "env \<Rightarrow> session \<Rightarrow> bool" where
  "stop_completes e st =
     ((case callObjectRef st of None \<Rightarrow> True | Some c \<Rightarrow> leaveResult e = None)
      \<and> (case held_id st of None \<Rightarrow> True | Some cid \<Rightarrow> endConversation e cid = Inr ()))"

definition stop_calls :: "session \<Rightarrow> call list" where
  "stop_calls st =
     (case callObjectRef st of None \<Rightarrow> [] | Some c \<Rightarrow> [Leave, Destroy])
     @ (case held_id st of None \<Rightarrow> [] | Some cid \<Rightarrow> [EndConversation cid])"

definition stopped :: "session \<Rightarrow> session" where
  "stopped st =
     st\<lparr>conversation := None, isConnected := False, replicaConnected := False,
        connectionStatus := ReadyToStart,
        videoRef := map_option (\<lambda>v. v\<lparr>srcObject := None\<rparr>) (videoRef st),
        callObjectRef := None, conversationIdRef := None,
        trace := trace st @ stop_calls st\<rparr>"

lemma cleanup_completes:
  assumes "stop_completes e st"
  shows "cleanupConversation e st = stopped st"
  using assms
  by (cases "callObjectRef st"; cases "held_id st")
     (auto simp: cleanupConversation_def stop_completes_def stopped_def stop_calls_def held_id_def
           split: option.splits if_splits)

lemma stop_completes_stopped: "stop_completes e (stopped st)"
  by (simp add: stop_completes_def stopped_def held_id_def)

lemma stopped_idem: "stopped (stopped st) = stopped st"
  by (cases "videoRef st") (simp_all add: stopped_def stop_calls_def held_id_def)

lemma ended_stop_calls:
  "ended (stop_calls st) = (case held_id st of None \<Rightarrow> [] | Some cid \<Rightarrow> [cid])"
  by (simp add: stop_calls_def ended_append split: option.splits)

text \<open>
  No timer is cancelled by a stop. After a stop that completed, the callbacks of the
  three session timers find the refs empty and change nothing.
\<close>

lemma timers_after_stop:
  "t \<noteq> RestartTimer \<Longrightarrow> run_timer e books now t (stopped st) = stopped st"
  by (cases t) (simp_all add: send_escalation_def hard_termination_def stopped_def held_id_def)

text \<open>
  C2 (as amended). When the first stop completes, a second stop changes nothing: the
  state after two stops is the state after one, whatever the environment of the
  second. The provider is asked to end the conversation once if a conversation id was
  held before the first stop, and not at all otherwise.
\<close>

theorem stop_twice:
  assumes "stop_completes e1 st"
  shows "cleanupConversation e2 (cleanupConversation e1 st) = cleanupConversation e1 st
         \<and> ended (trace (cleanupConversation e2 (cleanupConversation e1 st)))
           = ended (trace st) @ (case held_id st of None \<Rightarrow> [] | Some cid \<Rightarrow> [cid])"
proof -
  have a: "cleanupConversation e1 st = stopped st"
    by (rule cleanup_completes [OF assms])
  have b: "cleanupConversation e2 (stopped st) = stopped st"
    by (simp add: cleanup_completes [OF stop_completes_stopped] stopped_idem)
  have "ended (trace (stopped st))
          = ended (trace st) @ (case held_id st of None \<Rightarrow> [] | Some cid \<Rightarrow> [cid])"
    by (simp add: stopped_def ended_append ended_stop_calls)
  with a b show ?thesis by simp
qed

text \<open>
  Two stops of a component that never started a conversation make no call to the
  provider, not one.
\<close>

theorem stop_idle_counterexample:
  "ended (trace (cleanupConversation good_env (cleanupConversation good_env initial_session))) = []
   \<and> length (ended (trace (cleanupConversation good_env
                              (cleanupConversation good_env initial_session)))) \<noteq> 1"
  by (simp add: cleanupConversation_def held_id_def initial_session_def)

theorem stop_twice_witness:
  "stop_completes good_env connected_session
   \<and> cleanupConversation good_env (cleanupConversation good_env connected_session)
       = cleanupConversation good_env connected_session
   \<and> ended (trace (cleanupConversation good_env (cleanupConversation good_env connected_session)))
       = [''c123'']"
proof -
  have c: "stop_completes good_env connected_session"
    unfolding connected_session_def started
    by (simp add: stop_completes_def held_id_def endConversation_def good_env_def ok_response_def
          initial_session_def)
  have h: "held_id connected_session = Some ''c123''"
    unfolding connected_session_def started by (simp add: held_id_def initial_session_def)
  have t: "ended (trace connected_session) = []"
    unfolding connected_session_def started by (simp add: initial_session_def)
  note w = stop_twice [OF c, of good_env]
  from w have e1: "cleanupConversation good_env (cleanupConversation good_env connected_session)
                     = cleanupConversation good_env connected_session"
    by (rule conjunct1)
  from w have "ended (trace (cleanupConversation good_env
                               (cleanupConversation good_env connected_session)))
                 = ended (trace connected_session)
                   @ (case held_id connected_session of None \<Rightarrow> [] | Some cid \<Rightarrow> [cid])"
    by (rule conjunct2)
  then have e2: "ended (trace (cleanupConversation good_env
                                 (cleanupConversation good_env connected_session))) = [''c123'']"
    unfolding h t by simp
  from c e1 e2 show ?thesis by blast
qed

section \<open>A start that fails\<close>

text \<open>
  The reason that the start records for an exception: its message, or a fixed text
  when the message is empty. The join fails when the transport library is missing or
  one of the two awaited transport calls rejects.
\<close>

definition failure_reason :: "js_error \<Rightarrow> string" where
  "failure_reason err = (if message err \<noteq> [] then message err else ''Failed to create conversation'')"

definition join_fails :: "env \<Rightarrow> bool" where
  "join_fails e = (\<not> dailyLoaded e \<or> joinResult e \<noteq> None \<or> setLocalVideoResult e \<noteq> None)"

text \<open>The sample environment, except that the transport refuses the join.\<close>

definition failing_join_env :: env where
  "failing_join_env = good_env\<lparr>joinResult := Some (Error ''connection refused'')\<rparr>"

lemma failure_reason_nonempty: "failure_reason err \<noteq> []"
  by (simp add: failure_reason_def)

lemma join_fails_outcome:
  assumes "join_fails e"
  shows "\<exists>err st'. joinConversation e url st = Inl (err, st')
           \<and> conversationIdRef st' = conversationIdRef st
           \<and> conversation st' = conversation st
           \<and> timers st' = timers st
           \<and> ended (trace st') = ended (trace st)"
  using assms
  by (auto simp: joinConversation_def join_fails_def join_failed_def Let_def ended_append
           split: option.splits)

lemma ended_cleanup:
  assumes "stop_completes e st"
  shows "ended (trace (cleanupConversation e st))
           = ended (trace st) @ (case held_id st of None \<Rightarrow> [] | Some cid \<Rightarrow> [cid])"
  by (simp add: cleanup_completes [OF assms] stopped_def ended_append ended_stop_calls)

lemma start_create_fails:
  assumes "isConfigured e" and "personaId e \<noteq> []"
    and "createLibraryConversation e books = Inl err"
  shows "initializeAIAssistant e books now st =
           st\<lparr>isConnecting := False, error := Some (failure_reason err),
              connectionStatus := FailedToCreateConversation,
              trace := trace st @ [CreateLibraryConversation]\<rparr>"
  using assms by (simp add: initializeAIAssistant_def failure_reason_def Let_def)

lemma start_join_fails:
  assumes "isConfigured e" and "personaId e \<noteq> []"
    and "createLibraryConversation e books = Inr c" and "join_fails e"
  shows "\<exists>err st'. initializeAIAssistant e books now st =
           st'\<lparr>error := Some (failure_reason err),
               connectionStatus := FailedToCreateConversation, isConnecting := False\<rparr>
         \<and> conversationIdRef st' = Some (conversation_id c)
         \<and> conversation st' = Some c
         \<and> timers st' = timers st
         \<and> ended (trace st') = ended (trace st)"
proof -
  let ?st3 = "st\<lparr>isConnecting := True, error := None,
                 connectionStatus := CreatingConversation,
                 trace := trace st @ [CreateLibraryConversation],
                 conversation := Some c, conversationIdRef := Some (conversation_id c),
                 connectionStatus := ConversationCreatedJoining\<rparr>"
  from join_fails_outcome [OF assms(4), of "conversation_url c" ?st3]
  obtain err st' where j: "joinConversation e (conversation_url c) ?st3 = Inl (err, st')"
    and k: "conversationIdRef st' = conversationIdRef ?st3" "conversation st' = conversation ?st3"
      "timers st' = timers ?st3" "ended (trace st') = ended (trace ?st3)"
    by blast
  have "initializeAIAssistant e books now st =
           st'\<lparr>error := Some (failure_reason err),
               connectionStatus := FailedToCreateConversation, isConnecting := False\<rparr>"
    using assms(1-3) j by (simp add: initializeAIAssistant_def failure_reason_def Let_def)
  with k show ?thesis by (auto simp: ended_append)
qed

text \<open>
  C4 (as amended). With the configuration present, a start that fails leaves a
  non-empty reason in \<open>error\<close>, the status of a failed start, the connecting flag
  cleared and no timer set, and it asks the provider to end nothing. When the
  provider fails to create the conversation, no conversation is recorded. When the
  join fails, the conversation that was created stays recorded, in the state and in
  the ref; it is ended by the next stop that completes.
\<close>

theorem start_failure:
  assumes "isConfigured e" and "personaId e \<noteq> []"
  shows "(\<forall>err. createLibraryConversation e books = Inl err \<longrightarrow>
            error (initializeAIAssistant e books now st) = Some (failure_reason err)
            \<and> failure_reason err \<noteq> []
            \<and> connectionStatus (initializeAIAssistant e books now st) = FailedToCreateConversation
            \<and> \<not> isConnecting (initializeAIAssistant e books now st)
            \<and> conversationIdRef (initializeAIAssistant e books now st) = conversationIdRef st
            \<and> conversation (initializeAIAssistant e books now st) = conversation st
            \<and> timers (initializeAIAssistant e books now st) = timers st
            \<and> ended (trace (initializeAIAssistant e books now st)) = ended (trace st))
         \<and> (\<forall>c. createLibraryConversation e books = Inr c \<and> join_fails e \<longrightarrow>
            (\<exists>err. error (initializeAIAssistant e books now st) = Some (failure_reason err)
                   \<and> failure_reason err \<noteq> [])
            \<and> connectionStatus (initializeAIAssistant e books now st) = FailedToCreateConversation
            \<and> \<not> isConnecting (initializeAIAssistant e books now st)
            \<and> conversationIdRef (initializeAIAssistant e books now st) = Some (conversation_id c)
            \<and> conversation (initializeAIAssistant e books now st) = Some c
            \<and> timers (initializeAIAssistant e books now st) = timers st
            \<and> ended (trace (initializeAIAssistant e books now st)) = ended (trace st)
            \<and> (conversation_id c \<noteq> []
                 \<and> stop_completes e' (initializeAIAssistant e books now st) \<longrightarrow>
                 ended (trace (cleanupConversation e' (initializeAIAssistant e books now st)))
                   = ended (trace st) @ [conversation_id c]))"
proof (intro conjI allI impI)
  fix c
  assume a: "createLibraryConversation e books = Inr c \<and> join_fails e"
  from start_join_fails [OF assms, of books c now st] a
  obtain err st' where i: "initializeAIAssistant e books now st =
           st'\<lparr>error := Some (failure_reason err),
               connectionStatus := FailedToCreateConversation, isConnecting := False\<rparr>"
    and k: "conversationIdRef st' = Some (conversation_id c)" "conversation st' = Some c"
      "timers st' = timers st" "ended (trace st') = ended (trace st)"
    by blast
  show "\<exists>err. error (initializeAIAssistant e books now st) = Some (failure_reason err)
                   \<and> failure_reason err \<noteq> []"
    unfolding i by (auto simp: failure_reason_nonempty)
  show "connectionStatus (initializeAIAssistant e books now st) = FailedToCreateConversation"
    unfolding i by simp
  show "\<not> isConnecting (initializeAIAssistant e books now st)"
    unfolding i by simp
  show "conversationIdRef (initializeAIAssistant e books now st) = Some (conversation_id c)"
    unfolding i using k by simp
  show "conversation (initializeAIAssistant e books now st) = Some c"
    unfolding i using k by simp
  show "timers (initializeAIAssistant e books now st) = timers st"
    unfolding i using k by simp
  show "ended (trace (initializeAIAssistant e books now st)) = ended (trace st)"
    unfolding i using k by simp
  assume s: "conversation_id c \<noteq> [] \<and> stop_completes e' (initializeAIAssistant e books now st)"
  then have "held_id (initializeAIAssistant e books now st) = Some (conversation_id c)"
    unfolding i using k by (simp add: held_id_def)
  with ended_cleanup [of e' "initializeAIAssistant e books now st"] s
  have "ended (trace (cleanupConversation e' (initializeAIAssistant e books now st)))
          = ended (trace (initializeAIAssistant e books now st)) @ [conversation_id c]"
    by simp
  then show "ended (trace (cleanupConversation e' (initializeAIAssistant e books now st)))
                   = ended (trace st) @ [conversation_id c]"
    unfolding i using k by simp
qed (simp_all add: start_create_fails [OF assms] failure_reason_nonempty ended_append)


lemma start_join_refused:
  "initializeAIAssistant failing_join_env sample_catalog now initial_session =
     initial_session
       \<lparr>conversation := Some sample_conversation,
        error := Some ''connection refused'',
        connectionStatus := FailedToCreateConversation,
        callObjectRef := Some DailyCall, conversationIdRef := Some ''c123'',
        trace := [CreateLibraryConversation, CreateCallObject,
                  Join ''https://tavus.daily.co/c123'']\<rparr>"
  by (simp add: failing_join_env_def start_eval)

text \<open>
  After a refused join the created conversation is still held and the provider has
  not been asked to end it.
\<close>

theorem start_failure_counterexample:
  "conversationIdRef (initializeAIAssistant failing_join_env sample_catalog 0 initial_session)
     = Some ''c123''
   \<and> conversation (initializeAIAssistant failing_join_env sample_catalog 0 initial_session)
     = Some sample_conversation
   \<and> callObjectRef (initializeAIAssistant failing_join_env sample_catalog 0 initial_session)
     = Some DailyCall
   \<and> ended (trace (initializeAIAssistant failing_join_env sample_catalog 0 initial_session)) = []
   \<and> error (initializeAIAssistant failing_join_env sample_catalog 0 initial_session)
     = Some ''connection refused''"
  unfolding start_join_refused by (simp add: initial_session_def)

theorem start_failure_witness:
  "isConfigured failing_join_env
   \<and> personaId failing_join_env \<noteq> []
   \<and> createLibraryConversation failing_join_env sample_catalog = Inr sample_conversation
   \<and> join_fails failing_join_env
   \<and> conversation_id sample_conversation \<noteq> []
   \<and> stop_completes good_env (initializeAIAssistant failing_join_env sample_catalog 0 initial_session)
   \<and> conversationIdRef (initializeAIAssistant failing_join_env sample_catalog 0 initial_session)
       = Some ''c123''
   \<and> ended (trace (initializeAIAssistant failing_join_env sample_catalog 0 initial_session)) = []
   \<and> ended (trace (cleanupConversation good_env
         (initializeAIAssistant failing_join_env sample_catalog 0 initial_session))) = [''c123'']"
proof -
  let ?st' = "initializeAIAssistant failing_join_env sample_catalog 0 initial_session"
  have a: "isConfigured failing_join_env" and b: "personaId failing_join_env \<noteq> []"
    by (simp_all add: failing_join_env_def good_env_def isConfigured_def)
  have c: "createLibraryConversation failing_join_env sample_catalog = Inr sample_conversation"
    by (simp add: failing_join_env_def good_env_def createLibraryConversation_def
          createConversation_def ok_response_def)
  have d: "join_fails failing_join_env"
    by (simp add: failing_join_env_def join_fails_def)
  have i: "conversation_id sample_conversation \<noteq> []"
    and i': "conversation_id sample_conversation = ''c123''"
    by (simp_all add: sample_conversation_def)
  have s: "stop_completes good_env ?st'"
    unfolding start_join_refused
    by (simp add: stop_completes_def held_id_def endConversation_def good_env_def ok_response_def
          initial_session_def)
  have t: "ended (trace initial_session) = []"
    by (simp add: initial_session_def)
  from start_failure [OF a b, of sample_catalog 0 initial_session good_env] c d
  have "conversationIdRef ?st' = Some (conversation_id sample_conversation)
        \<and> ended (trace ?st') = ended (trace initial_session)
        \<and> (conversation_id sample_conversation \<noteq> [] \<and> stop_completes good_env ?st' \<longrightarrow>
             ended (trace (cleanupConversation good_env ?st'))
               = ended (trace initial_session) @ [conversation_id sample_conversation])"
    by blast
  with i s have "conversationIdRef ?st' = Some ''c123''
        \<and> ended (trace ?st') = []
        \<and> ended (trace (cleanupConversation good_env ?st')) = [''c123'']"
    unfolding t i' by simp
  with a b c d i s show ?thesis by blast
qed


section \<open>Restarting\<close>

lemma cleanup_keeps:
  "toolCallHistory (cleanupConversation e st) = toolCallHistory st"
  "lastToolCall (cleanupConversation e st) = lastToolCall st"
  "timers (cleanupConversation e st) = timers st"
  by (auto simp: cleanupConversation_def split: option.splits sum.splits)

lemma join_keeps:
  "toolCallHistory (state_of (joinConversation e url st)) = toolCallHistory st"
  "lastToolCall (state_of (joinConversation e url st)) = lastToolCall st"
  by (auto simp: joinConversation_def join_failed_def Let_def split: option.splits)

lemma start_keeps:
  "toolCallHistory (initializeAIAssistant e books now st) = toolCallHistory st"
  "lastToolCall (initializeAIAssistant e books now st) = lastToolCall st"
proof -
  have j: "toolCallHistory st' = toolCallHistory st0 \<and> lastToolCall st' = lastToolCall st0"
    if "joinConversation e url st0 = Inl (err, st')" for url st0 err st'
    using join_keeps [of e url st0] that by simp
  have k: "toolCallHistory st' = toolCallHistory st0 \<and> lastToolCall st' = lastToolCall st0"
    if "joinConversation e url st0 = Inr st'" for url st0 st'
    using join_keeps [of e url st0] that by simp
  show "toolCallHistory (initializeAIAssistant e books now st) = toolCallHistory st"
    by (auto simp: initializeAIAssistant_def setTimeout_def Let_def
             split: sum.splits prod.splits dest: j k)
  show "lastToolCall (initializeAIAssistant e books now st) = lastToolCall st"
    by (auto simp: initializeAIAssistant_def setTimeout_def Let_def
             split: sum.splits prod.splits dest: j k)
qed

text \<open>What \<open>restartConversation\<close> resets between the stop and the new start.\<close>

definition reset_counters :: "session \<Rightarrow> session" where
  "reset_counters st =
     st\<lparr>personaCreated := False, naturalResponseCount := 0, restrictedResponseCount := 0\<rparr>"

text \<open>
  C9 (as amended). A restart stops the session, resets the two response counters and
  sets a timer for one second later; when that timer fires, the start runs on the
  stopped state with the counters reset. The tool-call history and the last-call
  slot are what they were before the restart, after the stop and after the new start
  alike. (The hypothesis: no restart is already pending for the same instant.)
\<close>

theorem restart_keeps_history:
  assumes "(now + 1000, RestartTimer) \<notin> set (timers st)"
  shows "fire e' books (now + 1000, RestartTimer) (restartConversation e now st)
           = initializeAIAssistant e' books (now + 1000) (reset_counters (cleanupConversation e st))
         \<and> timers (restartConversation e now st) = timers st @ [(now + 1000, RestartTimer)]
         \<and> naturalResponseCount (restartConversation e now st) = 0
         \<and> restrictedResponseCount (restartConversation e now st) = 0
         \<and> toolCallHistory (restartConversation e now st) = toolCallHistory st
         \<and> lastToolCall (restartConversation e now st) = lastToolCall st
         \<and> toolCallHistory (fire e' books (now + 1000, RestartTimer) (restartConversation e now st))
           = toolCallHistory st
         \<and> lastToolCall (fire e' books (now + 1000, RestartTimer) (restartConversation e now st))
           = lastToolCall st"
proof -
  have r: "remove1 (now + 1000, RestartTimer) (timers st @ [(now + 1000, RestartTimer)]) = timers st"
    using assms by (simp add: remove1_append)
  have u: "s\<lparr>timers := timers st\<rparr> = s" if "timers s = timers st" for s :: session
    using that by (cases s) simp
  have f: "fire e' books (now + 1000, RestartTimer) (restartConversation e now st)
           = initializeAIAssistant e' books (now + 1000) (reset_counters (cleanupConversation e st))"
    by (simp add: fire_def restartConversation_def setTimeout_def reset_counters_def
          cleanup_keeps r u)
  show ?thesis
    unfolding f
    by (simp add: start_keeps reset_counters_def cleanup_keeps)
       (simp add: restartConversation_def setTimeout_def cleanup_keeps)
qed


text \<open>The sample session after one dispatched tool call.\<close>

definition session_after_call :: session where
  "session_after_call =
     executeToolCall no_lower sample_render no_coerce sample_catalog canonical_call connected_session"

lemma after_call_fields:
  "toolCallHistory session_after_call = [''filter_books_by_subject(...)'']"
  "lastToolCall session_after_call = ''filter_books_by_subject(...)''"
  "timers session_after_call
     = [(45000, WrapUpTimer), (0, FinalWarningTimer), (60000, HardTerminationTimer)]"
  unfolding session_after_call_def connected_session_def started
  by (simp_all add: executeToolCall_def canonical_call_def science_arguments_def dispatch_def
        sample_render_def initial_session_def Let_def)

text \<open>
  After a restart of that session and the new start, the history and the last-call
  slot still hold the call.
\<close>

theorem restart_keeps_history_counterexample:
  "toolCallHistory (fire good_env sample_catalog (6000, RestartTimer)
                      (restartConversation good_env 5000 session_after_call))
     = [''filter_books_by_subject(...)'']
   \<and> lastToolCall (fire good_env sample_catalog (6000, RestartTimer)
                      (restartConversation good_env 5000 session_after_call))
     = ''filter_books_by_subject(...)''"
  by (simp add: fire_def restartConversation_def setTimeout_def start_keeps cleanup_keeps
        after_call_fields)

theorem restart_keeps_history_witness:
  "(5000 + 1000, RestartTimer) \<notin> set (timers session_after_call)
   \<and> timers (restartConversation good_env 5000 session_after_call)
       = [(45000, WrapUpTimer), (0, FinalWarningTimer), (60000, HardTerminationTimer),
          (6000, RestartTimer)]
   \<and> naturalResponseCount (restartConversation good_env 5000 session_after_call) = 0
   \<and> toolCallHistory (restartConversation good_env 5000 session_after_call)
       = [''filter_books_by_subject(...)'']"
proof -
  have a: "(5000 + 1000, RestartTimer) \<notin> set (timers session_after_call)"
    by (simp add: after_call_fields)
  from restart_keeps_history [OF a, of good_env sample_catalog good_env] a
  show ?thesis by (simp add: after_call_fields)
qed

section \<open>What gets bound to the local sink\<close>

text \<open>
  A remote participant is ready when both its tracks are playable. \<open>playable_tracks\<close>
  are the tracks that remote participants offer in a playable entry, \<open>sink_tracks\<close> the
  tracks in the stream of the local sink.
\<close>

definition remote_ready :: "string \<times> participant \<Rightarrow> bool" where
  "remote_ready entry =
     (fst entry \<noteq> ''local'' \<and> playable (video (snd entry)) \<and> playable (audio (snd entry)))"

definition playable_tracks :: "(string \<times> participant) list \<Rightarrow> track set" where
  "playable_tracks ps =
     {t. \<exists>entry \<in> set ps. fst entry \<noteq> ''local''
           \<and> ((playable (video (snd entry)) \<and> offered (video (snd entry)) = Some t)
              \<or> (playable (audio (snd entry)) \<and> offered (audio (snd entry)) = Some t))}"

definition sink_tracks :: "session \<Rightarrow> track set" where
  "sink_tracks st =
     (case videoRef st of
        None \<Rightarrow> {}
      | Some v \<Rightarrow> (case srcObject v of None \<Rightarrow> {} | Some stream \<Rightarrow> set stream))"

lemma sink_display: "sink_tracks (displayReplicaVideo volumeOn t st) \<subseteq> sink_tracks st \<union> {t}"
  by (auto simp: displayReplicaVideo_def sink_tracks_def split: option.splits)

lemma sink_audio: "sink_tracks (handleReplicaAudio volumeOn t st) \<subseteq> sink_tracks st \<union> {t}"
  by (auto simp: handleReplicaAudio_def sink_tracks_def split: option.splits)

lemma sink_update [simp]:
  "sink_tracks (st\<lparr>replicaConnected := a, connectionStatus := b, isConnecting := c\<rparr>) = sink_tracks st"
  by (simp add: sink_tracks_def)

lemma ready_display [simp]: "replicaConnected (displayReplicaVideo volumeOn t st) = replicaConnected st"
  by (simp add: displayReplicaVideo_def split: option.splits)

lemma ready_audio [simp]: "replicaConnected (handleReplicaAudio volumeOn t st) = replicaConnected st"
  by (simp add: handleReplicaAudio_def split: option.splits)

lemma bind_participant_flag:
  "fst (bind_participant volumeOn books entry acc) = (fst acc \<or> remote_ready entry)"
  by (auto simp: bind_participant_def remote_ready_def Let_def)

lemma bind_participant_ready:
  assumes "fst acc \<longrightarrow> replicaConnected (snd acc)"
  shows "fst (bind_participant volumeOn books entry acc)
           \<longrightarrow> replicaConnected (snd (bind_participant volumeOn books entry acc))"
  using assms by (auto simp: bind_participant_def Let_def split: option.splits)

lemma bind_participant_sink:
  "sink_tracks (snd (bind_participant volumeOn books entry acc))
     \<subseteq> sink_tracks (snd acc) \<union> playable_tracks [entry]"
proof (cases "fst entry = ''local''")
  case True
  then show ?thesis by (simp add: bind_participant_def)
next
  case False
  let ?p = "snd entry"
  let ?s1 = "if playable (video ?p) \<and> playable (audio ?p)
             then (snd acc)\<lparr>replicaConnected := True,
                             connectionStatus := AssistantReady (length books),
                             isConnecting := False\<rparr>
             else snd acc"
  let ?s2 = "if playable (video ?p)
             then (case offered (video ?p) of None \<Rightarrow> ?s1 | Some t \<Rightarrow> displayReplicaVideo volumeOn t ?s1)
             else ?s1"
  let ?s3 = "if playable (audio ?p)
             then (case offered (audio ?p) of None \<Rightarrow> ?s2 | Some t \<Rightarrow> handleReplicaAudio volumeOn t ?s2)
             else ?s2"
  have e: "snd (bind_participant volumeOn books entry acc) = ?s3"
    using False by (auto simp: bind_participant_def Let_def split: option.splits)
  have a: "sink_tracks ?s1 = sink_tracks (snd acc)"
    by simp
  have b: "sink_tracks ?s2 \<subseteq> sink_tracks ?s1 \<union> playable_tracks [entry]"
  proof (cases "playable (video ?p)")
    case False
    then show ?thesis by simp
  next
    case v: True
    show ?thesis
    proof (cases "offered (video ?p)")
      case None
      with v show ?thesis by simp
    next
      case (Some t)
      with v False have "t \<in> playable_tracks [entry]"
        by (simp add: playable_tracks_def)
      with sink_display [of volumeOn t ?s1] have "sink_tracks (displayReplicaVideo volumeOn t ?s1)
             \<subseteq> sink_tracks ?s1 \<union> playable_tracks [entry]"
        by blast
      with v Some show ?thesis by simp
    qed
  qed
  have c: "sink_tracks ?s3 \<subseteq> sink_tracks ?s2 \<union> playable_tracks [entry]"
  proof (cases "playable (audio ?p)")
    case False
    then show ?thesis by simp
  next
    case v: True
    show ?thesis
    proof (cases "offered (audio ?p)")
      case None
      with v show ?thesis by simp
    next
      case (Some t)
      with v False have "t \<in> playable_tracks [entry]"
        by (simp add: playable_tracks_def)
      with sink_audio [of volumeOn t ?s2] have "sink_tracks (handleReplicaAudio volumeOn t ?s2)
             \<subseteq> sink_tracks ?s2 \<union> playable_tracks [entry]"
        by blast
      with v Some show ?thesis by simp
    qed
  qed
  from a b c show ?thesis unfolding e by blast
qed

lemma playable_tracks_Cons:
  "playable_tracks (entry # rest) = playable_tracks [entry] \<union> playable_tracks rest"
  by (auto simp: playable_tracks_def)

lemma forEach_flag:
  "fst (forEach_participant volumeOn books ps acc) = (fst acc \<or> (\<exists>entry \<in> set ps. remote_ready entry))"
  by (induction ps arbitrary: acc) (auto simp: bind_participant_flag)

lemma forEach_ready:
  "(fst acc \<longrightarrow> replicaConnected (snd acc))
   \<Longrightarrow> fst (forEach_participant volumeOn books ps acc)
       \<longrightarrow> replicaConnected (snd (forEach_participant volumeOn books ps acc))"
proof (induction ps arbitrary: acc)
  case Nil
  then show ?case by simp
next
  case (Cons entry rest)
  from bind_participant_ready [OF Cons.prems]
  have "fst (bind_participant volumeOn books entry acc)
           \<longrightarrow> replicaConnected (snd (bind_participant volumeOn books entry acc))" .
  from Cons.IH [OF this] show ?case by simp
qed

lemma forEach_sink:
  "sink_tracks (snd (forEach_participant volumeOn books ps acc))
     \<subseteq> sink_tracks (snd acc) \<union> playable_tracks ps"
proof (induction ps arbitrary: acc)
  case Nil
  then show ?case by simp
next
  case (Cons entry rest)
  have "sink_tracks (snd (forEach_participant volumeOn books rest (bind_participant volumeOn books entry acc)))
          \<subseteq> sink_tracks (snd (bind_participant volumeOn books entry acc)) \<union> playable_tracks rest"
    by (rule Cons.IH)
  with bind_participant_sink [of volumeOn books entry acc] show ?case
    unfolding playable_tracks_Cons [of entry rest] by auto
qed


text \<open>
  The bindings that one entry of \<open>participants()\<close> asks for, in the order in which they
  are made: none for the local participant; for a remote one its video track when the
  video entry is playable and offers a track, then its audio track when the audio entry
  is playable and offers a track.
\<close>

datatype binding = BindVideo track | BindAudio track

definition bindings_of :: "string \<times> participant \<Rightarrow> binding list" where
  "bindings_of entry =
     (if fst entry = ''local'' then []
      else (if playable (video (snd entry))
            then (case offered (video (snd entry)) of None \<Rightarrow> [] | Some t \<Rightarrow> [BindVideo t])
            else [])
         @ (if playable (audio (snd entry))
            then (case offered (audio (snd entry)) of None \<Rightarrow> [] | Some t \<Rightarrow> [BindAudio t])
            else []))"

text \<open>
  What one binding does to the sink. A video track replaces the stream of the sink by a
  stream of that track alone. An audio track is bound only onto a sink that holds a
  stream: the new stream keeps the video tracks of the old one and ends with the audio
  track; a sink without a stream is left as it is. Either binding sets \<open>muted\<close> from the
  volume flag that the listeners captured.
\<close>

fun bind_track :: "bool \<Rightarrow> binding \<Rightarrow> video_element \<Rightarrow> video_element" where
  "bind_track volumeOn (BindVideo t) v = v\<lparr>srcObject := Some [t], muted := \<not> volumeOn\<rparr>"
| "bind_track volumeOn (BindAudio t) v =
     (case srcObject v of
        None \<Rightarrow> v
      | Some stream \<Rightarrow> v\<lparr>srcObject := Some (filter (\<lambda>x. kind x = VideoTrack) stream @ [t]),
                         muted := \<not> volumeOn\<rparr>)"

lemma videoRef_display:
  "videoRef (displayReplicaVideo volumeOn t st)
     = map_option (bind_track volumeOn (BindVideo t)) (videoRef st)"
  by (simp add: displayReplicaVideo_def split: option.splits)

lemma videoRef_audio:
  "videoRef (handleReplicaAudio volumeOn t st)
     = map_option (bind_track volumeOn (BindAudio t)) (videoRef st)"
  by (simp add: handleReplicaAudio_def split: option.splits)

lemma bind_participant_videoRef:
  "videoRef (snd (bind_participant volumeOn books entry acc))
     = map_option (fold (bind_track volumeOn) (bindings_of entry)) (videoRef (snd acc))"
  by (cases "videoRef (snd acc)")
     (simp_all add: bind_participant_def bindings_of_def Let_def videoRef_display videoRef_audio
        split: option.splits)

lemma forEach_videoRef:
  "videoRef (snd (forEach_participant volumeOn books ps acc))
     = map_option (fold (bind_track volumeOn) (concat (map bindings_of ps))) (videoRef (snd acc))"
proof (induction ps arbitrary: acc)
  case Nil
  then show ?case by (simp add: option.map_ident)
next
  case (Cons entry rest)
  show ?case
    by (simp add: Cons.IH bind_participant_videoRef option.map_comp comp_def)
qed

lemma updateReplicaVideo_videoRef:
  assumes "callObjectRef st \<noteq> None"
  shows "videoRef (updateReplicaVideo volumeOn books ps st)
           = map_option (fold (bind_track volumeOn) (concat (map bindings_of ps))) (videoRef st)"
proof -
  from assms obtain c where c: "callObjectRef st = Some c" by auto
  show ?thesis
    using forEach_videoRef [of volumeOn books ps "(False, st)"]
    by (simp add: updateReplicaVideo_def c Let_def)
qed

lemma updateReplicaVideo_ready:
  assumes "callObjectRef st \<noteq> None"
  shows "replicaConnected (updateReplicaVideo volumeOn books ps st)
           = (\<exists>entry \<in> set ps. remote_ready entry)"
proof -
  from assms obtain c where c: "callObjectRef st = Some c" by auto
  let ?r = "forEach_participant volumeOn books ps (False, st)"
  have f: "fst ?r = (\<exists>entry \<in> set ps. remote_ready entry)"
    by (simp add: forEach_flag)
  have r: "fst ?r \<longrightarrow> replicaConnected (snd ?r)"
    by (rule forEach_ready) simp
  show ?thesis
    using f r by (auto simp: updateReplicaVideo_def c Let_def)
qed

lemma updateReplicaVideo_sink:
  assumes "callObjectRef st \<noteq> None"
  shows "sink_tracks (updateReplicaVideo volumeOn books ps st)
           \<subseteq> sink_tracks st \<union> playable_tracks ps"
proof -
  from assms obtain c where c: "callObjectRef st = Some c" by auto
  have s: "sink_tracks (snd (forEach_participant volumeOn books ps (False, st)))
             \<subseteq> sink_tracks st \<union> playable_tracks ps"
    using forEach_sink [of volumeOn books ps "(False, st)"] by simp
  then show ?thesis
    by (auto simp: updateReplicaVideo_def c Let_def sink_tracks_def)
qed

text \<open>
  C8 (as amended). While a call object is held, an update raises the readiness signal
  exactly when some remote participant has both tracks playable, and every track it
  adds to the local sink is a playable track of a remote participant. The tracks are
  bound one by one, not per participant: the sink after the update is the sink before
  it with the bindings of the participants made in order, and none when the \<open>video\<close>
  element is not rendered. So a lone remote participant whose video alone is playable
  has its video track bound, with the signal down; one whose audio alone is playable
  has its audio track put after the video tracks of the stream that the sink holds,
  with the signal down, and nothing bound when the sink holds no stream; one with both
  playable has the video track bound and then the audio track, with the signal up.
  Each binding sets \<open>muted\<close> from the volume flag that the listeners captured, whatever
  the current one is.
\<close>

theorem media_binding:
  assumes "callObjectRef st \<noteq> None"
  shows "replicaConnected (updateReplicaVideo volumeOn books ps st)
           = (\<exists>entry \<in> set ps. remote_ready entry)
         \<and> sink_tracks (updateReplicaVideo volumeOn books ps st)
             \<subseteq> sink_tracks st \<union> playable_tracks ps
         \<and> videoRef (updateReplicaVideo volumeOn books ps st)
             = map_option (fold (bind_track volumeOn) (concat (map bindings_of ps))) (videoRef st)
         \<and> (ps = [(pid, p)] \<and> pid \<noteq> ''local'' \<and> videoRef st = Some v
              \<and> playable (video p) \<and> offered (video p) = Some tv \<and> \<not> playable (audio p)
            \<longrightarrow> videoRef (updateReplicaVideo volumeOn books ps st)
                  = Some (v\<lparr>srcObject := Some [tv], muted := \<not> volumeOn\<rparr>)
                \<and> \<not> replicaConnected (updateReplicaVideo volumeOn books ps st))
         \<and> (ps = [(pid, p)] \<and> pid \<noteq> ''local'' \<and> videoRef st = Some v
              \<and> \<not> playable (video p) \<and> playable (audio p) \<and> offered (audio p) = Some ta
            \<longrightarrow> videoRef (updateReplicaVideo volumeOn books ps st)
                  = Some (case srcObject v of
                            None \<Rightarrow> v
                          | Some stream \<Rightarrow>
                              v\<lparr>srcObject := Some (filter (\<lambda>x. kind x = VideoTrack) stream @ [ta]),
                                muted := \<not> volumeOn\<rparr>)
                \<and> \<not> replicaConnected (updateReplicaVideo volumeOn books ps st))
         \<and> (ps = [(pid, p)] \<and> pid \<noteq> ''local'' \<and> videoRef st = Some v
              \<and> playable (video p) \<and> offered (video p) = Some tv
              \<and> playable (audio p) \<and> offered (audio p) = Some ta
            \<longrightarrow> videoRef (updateReplicaVideo volumeOn books ps st)
                  = Some (v\<lparr>srcObject := Some (filter (\<lambda>x. kind x = VideoTrack) [tv] @ [ta]),
                           muted := \<not> volumeOn\<rparr>)
                \<and> replicaConnected (updateReplicaVideo volumeOn books ps st))
         \<and> (videoRef st = None \<longrightarrow> videoRef (updateReplicaVideo volumeOn books ps st) = None)"
proof -
  note r = updateReplicaVideo_ready [OF assms, of volumeOn books ps]
  note s = updateReplicaVideo_sink [OF assms, of volumeOn books ps]
  note e = updateReplicaVideo_videoRef [OF assms, of volumeOn books ps]
  have 4: "videoRef (updateReplicaVideo volumeOn books ps st)
                  = Some (v\<lparr>srcObject := Some [tv], muted := \<not> volumeOn\<rparr>)
                \<and> \<not> replicaConnected (updateReplicaVideo volumeOn books ps st)"
    if "ps = [(pid, p)] \<and> pid \<noteq> ''local'' \<and> videoRef st = Some v
              \<and> playable (video p) \<and> offered (video p) = Some tv \<and> \<not> playable (audio p)"
    using that
    by (simp add: updateReplicaVideo_ready [OF assms] updateReplicaVideo_videoRef [OF assms]
          bindings_of_def remote_ready_def)
  have 5: "videoRef (updateReplicaVideo volumeOn books ps st)
                  = Some (case srcObject v of
                            None \<Rightarrow> v
                          | Some stream \<Rightarrow>
                              v\<lparr>srcObject := Some (filter (\<lambda>x. kind x = VideoTrack) stream @ [ta]),
                                muted := \<not> volumeOn\<rparr>)
                \<and> \<not> replicaConnected (updateReplicaVideo volumeOn books ps st)"
    if "ps = [(pid, p)] \<and> pid \<noteq> ''local'' \<and> videoRef st = Some v
              \<and> \<not> playable (video p) \<and> playable (audio p) \<and> offered (audio p) = Some ta"
    using that
    by (simp add: updateReplicaVideo_ready [OF assms] updateReplicaVideo_videoRef [OF assms]
          bindings_of_def remote_ready_def)
  have 6: "videoRef (updateReplicaVideo volumeOn books ps st)
                  = Some (v\<lparr>srcObject := Some (filter (\<lambda>x. kind x = VideoTrack) [tv] @ [ta]),
                           muted := \<not> volumeOn\<rparr>)
                \<and> replicaConnected (updateReplicaVideo volumeOn books ps st)"
    if "ps = [(pid, p)] \<and> pid \<noteq> ''local'' \<and> videoRef st = Some v
              \<and> playable (video p) \<and> offered (video p) = Some tv
              \<and> playable (audio p) \<and> offered (audio p) = Some ta"
    using that
    by (simp add: updateReplicaVideo_ready [OF assms] updateReplicaVideo_videoRef [OF assms]
          bindings_of_def remote_ready_def)
  have 7: "videoRef (updateReplicaVideo volumeOn books ps st) = None" if "videoRef st = None"
    using that by (simp add: e)
  from r s e 4 5 6 7 show ?thesis by blast
qed


text \<open>
  A connected session with the panel open: the \<open>video\<close> element is rendered (connected,
  not connecting, no error) and holds no stream yet. The volume is on in it.
\<close>

definition mounted_session :: session where
  "mounted_session = connected_session\<lparr>videoRef := Some \<lparr>srcObject = None, muted = False\<rparr>\<rparr>"

text \<open>
  The two tracks of the replica, and three states of a participant: video playable
  while the audio is still loading, audio playable while the video is still loading,
  and both playable.
\<close>

definition replica_video_track :: track where
  "replica_video_track = \<lparr>kind = VideoTrack, track_id = ''replica-video''\<rparr>"

definition replica_audio_track :: track where
  "replica_audio_track = \<lparr>kind = AudioTrack, track_id = ''replica-audio''\<rparr>"

definition video_only :: participant where
  "video_only =
     \<lparr>video = Some \<lparr>state = ''playable'', persistentTrack = Some replica_video_track\<rparr>,
      audio = Some \<lparr>state = ''loading'', persistentTrack = None\<rparr>\<rparr>"

definition audio_only :: participant where
  "audio_only =
     \<lparr>video = Some \<lparr>state = ''loading'', persistentTrack = None\<rparr>,
      audio = Some \<lparr>state = ''playable'', persistentTrack = Some replica_audio_track\<rparr>\<rparr>"

definition both_playable :: participant where
  "both_playable =
     \<lparr>video = Some \<lparr>state = ''playable'', persistentTrack = Some replica_video_track\<rparr>,
      audio = Some \<lparr>state = ''playable'', persistentTrack = Some replica_audio_track\<rparr>\<rparr>"

lemma mounted_fields:
  "callObjectRef mounted_session = Some DailyCall"
  "videoRef mounted_session = Some \<lparr>srcObject = None, muted = False\<rparr>"
  "isVolumeOn mounted_session"
  unfolding mounted_session_def connected_session_def started by (simp_all add: initial_session_def)

lemmas participant_eval =
  playable_def offered_def video_only_def audio_only_def both_playable_def
  replica_video_track_def replica_audio_track_def

text \<open>
  Only the video of the participant is playable, and the update binds it to the sink,
  with the readiness signal down.
\<close>

theorem partial_binding_counterexample:
  "playable (video video_only) \<and> \<not> playable (audio video_only)
   \<and> videoRef (updateReplicaVideo True sample_catalog [(''replica'', video_only)] mounted_session)
       = Some \<lparr>srcObject = Some [replica_video_track], muted = False\<rparr>
   \<and> \<not> replicaConnected
         (updateReplicaVideo True sample_catalog [(''replica'', video_only)] mounted_session)"
  by (simp add: updateReplicaVideo_def bind_participant_def displayReplicaVideo_def
        mounted_fields playable_def offered_def video_only_def Let_def)

text \<open>
  The same holds of the audio once the sink holds a stream: a second update in which
  only the audio is playable puts the audio track beside the video track bound before.
\<close>

lemma audio_alone_bound:
  "\<not> playable (video audio_only) \<and> playable (audio audio_only)
   \<and> videoRef (updateReplicaVideo True sample_catalog [(''replica'', audio_only)]
        (updateReplicaVideo True sample_catalog [(''replica'', video_only)] mounted_session))
       = Some \<lparr>srcObject = Some [replica_video_track, replica_audio_track], muted = False\<rparr>"
  by (simp add: updateReplicaVideo_def bind_participant_def displayReplicaVideo_def
        handleReplicaAudio_def mounted_fields participant_eval Let_def)

theorem media_binding_witness:
  "callObjectRef mounted_session \<noteq> None
   \<and> isVolumeOn mounted_session
   \<and> videoRef (updateReplicaVideo False sample_catalog
        [(''local'', both_playable), (''replica'', video_only), (''guest'', audio_only)]
        mounted_session)
       = Some \<lparr>srcObject = Some [replica_video_track, replica_audio_track], muted = True\<rparr>
   \<and> \<not> replicaConnected (updateReplicaVideo False sample_catalog
        [(''local'', both_playable), (''replica'', video_only), (''guest'', audio_only)]
        mounted_session)
   \<and> videoRef (updateReplicaVideo True sample_catalog [(''replica'', both_playable)] mounted_session)
       = Some \<lparr>srcObject = Some [replica_video_track, replica_audio_track], muted = False\<rparr>
   \<and> replicaConnected
        (updateReplicaVideo True sample_catalog [(''replica'', both_playable)] mounted_session)
   \<and> videoRef (updateReplicaVideo True sample_catalog [(''replica'', audio_only)] mounted_session)
       = Some \<lparr>srcObject = None, muted = False\<rparr>
   \<and> videoRef (updateReplicaVideo True sample_catalog [(''replica'', video_only)] mounted_session)
       = Some \<lparr>srcObject = Some [replica_video_track], muted = False\<rparr>"
proof -
  have c: "callObjectRef mounted_session \<noteq> None"
    by (simp add: mounted_fields)
  let ?three = "[(''local'', both_playable), (''replica'', video_only), (''guest'', audio_only)]"
  note three = media_binding [OF c, where volumeOn = False and books = sample_catalog
      and ps = ?three]
  note both = media_binding [OF c, where volumeOn = True and books = sample_catalog
      and ps = "[(''replica'', both_playable)]" and pid = "''replica''" and p = both_playable
      and v = "\<lparr>srcObject = None, muted = False\<rparr>"
      and tv = replica_video_track and ta = replica_audio_track]
  note audio = media_binding [OF c, where volumeOn = True and books = sample_catalog
      and ps = "[(''replica'', audio_only)]" and pid = "''replica''" and p = audio_only
      and v = "\<lparr>srcObject = None, muted = False\<rparr>" and ta = replica_audio_track]
  note video = media_binding [OF c, where volumeOn = True and books = sample_catalog
      and ps = "[(''replica'', video_only)]" and pid = "''replica''" and p = video_only
      and v = "\<lparr>srcObject = None, muted = False\<rparr>" and tv = replica_video_track]
  have 1: "videoRef (updateReplicaVideo False sample_catalog ?three mounted_session)
             = Some \<lparr>srcObject = Some [replica_video_track, replica_audio_track], muted = True\<rparr>"
    by (subst conjunct1 [OF conjunct2 [OF conjunct2 [OF three]]])
       (simp add: bindings_of_def mounted_fields participant_eval)
  have 2: "\<not> replicaConnected (updateReplicaVideo False sample_catalog ?three mounted_session)"
    by (subst conjunct1 [OF three]) (simp add: remote_ready_def participant_eval)
  have 3: "videoRef (updateReplicaVideo True sample_catalog [(''replica'', both_playable)] mounted_session)
             = Some \<lparr>srcObject = Some [replica_video_track, replica_audio_track], muted = False\<rparr>
           \<and> replicaConnected
                (updateReplicaVideo True sample_catalog [(''replica'', both_playable)] mounted_session)"
    using conjunct1 [OF conjunct2 [OF conjunct2 [OF conjunct2 [OF conjunct2 [OF conjunct2 [OF both]]]]]]
    by (simp add: mounted_fields participant_eval)
  have 4: "videoRef (updateReplicaVideo True sample_catalog [(''replica'', audio_only)] mounted_session)
             = Some \<lparr>srcObject = None, muted = False\<rparr>"
    using conjunct1 [OF conjunct2 [OF conjunct2 [OF conjunct2 [OF conjunct2 [OF audio]]]]]
    by (simp add: mounted_fields participant_eval)
  have 5: "videoRef (updateReplicaVideo True sample_catalog [(''replica'', video_only)] mounted_session)
             = Some \<lparr>srcObject = Some [replica_video_track], muted = False\<rparr>"
    using conjunct1 [OF conjunct2 [OF conjunct2 [OF conjunct2 [OF video]]]]
    by (simp add: mounted_fields participant_eval)
  from c 1 2 3 4 5 show ?thesis
    by (simp add: mounted_fields)
qed


end
